theory Spec2Isabelle
  imports Main "HOL-Library.List_Lexorder" "HOL-Library.Char_ord" "HOL-Library.Multiset"
begin

section \<open>TinyTail: log store and alert engine\<close>

text \<open>
  A shallow embedding of the Go sources of TinyTail: the DynamoDB-backed log store
  (package \<open>store\<close>) and the alert engine (package \<open>alerts\<close>).

  The sources hold the log store in two variants. The file
  \<open>lambda/internal/store/logs.go\<close> splits an oversized message into independent
  entries carrying \<open>[CONTINUED i/n]\<close> markers; its functions keep their names here.
  The second store file (the one declaring \<open>chunk_index\<close> and \<open>total_chunks\<close>)
  writes chunk groups under one identifier and reassembles them on read; its functions
  carry the suffix \<open>_chunked\<close> where the name is shared.

  Conventions: an instant (\<open>time.Time\<close>) is an integer number of nanoseconds since
  the Unix epoch, a \<open>time.Duration\<close> is a signed 64-bit number of nanoseconds held in
  an \<open>int\<close> with the wrap-around written out, a Go \<open>string\<close> is a list of bytes.
  Calls that leave the process (DynamoDB, SES, the clock, the random source) take their
  outcome from an explicit argument.
\<close>

subsection \<open>Time and durations\<close>

type_synonym Time = int
type_synonym Duration = int

definition Millisecond :: Duration where "Millisecond = 1000000"
definition Second :: Duration where "Second = 1000000000"
definition Hour :: Duration where "Hour = 3600 * Second"

definition minDuration :: Duration where "minDuration = - (2 ^ 63)"
definition maxDuration :: Duration where "maxDuration = 2 ^ 63 - 1"

text \<open>Signed 64-bit wrap-around of an arithmetic result.\<close>
definition wrap64 :: "int \<Rightarrow> int" where
  "wrap64 x = (x + 2 ^ 63) mod 2 ^ 64 - 2 ^ 63"

text \<open>\<open>t.Unix()\<close>: whole seconds since the epoch; \<open>t.Nanosecond()\<close>: the rest.\<close>
definition Unix :: "Time \<Rightarrow> int" where "Unix t = t div Second"
definition Nanosecond :: "Time \<Rightarrow> int" where "Nanosecond t = t mod Second"

text \<open>\<open>time.Unix(sec, 0)\<close>.\<close>
definition time_Unix :: "int \<Rightarrow> Time" where "time_Unix sec = sec * Second"

text \<open>\<open>t.Add(d)\<close>.\<close>
definition Add :: "Time \<Rightarrow> Duration \<Rightarrow> Time" where "Add t d = t + d"

text \<open>\<open>t.Sub(u)\<close> saturates at the smallest and largest duration.\<close>
definition Sub :: "Time \<Rightarrow> Time \<Rightarrow> Duration" where
  "Sub t u = (if t - u < minDuration then minDuration
              else if maxDuration < t - u then maxDuration else t - u)"

text \<open>The zero \<open>time.Time\<close> is January 1 of year 1, 00:00 UTC.\<close>
definition zeroTime :: Time where "zeroTime = - 62135596800 * Second"

subsection \<open>Formatting and scanning decimal integers\<close>

definition decimalDigits :: string where
  "decimalDigits = ''0123456789''"

definition digit_char :: "nat \<Rightarrow> char" where
  "digit_char d = decimalDigits ! d"

definition is_digit :: "char \<Rightarrow> bool" where
  "is_digit c \<longleftrightarrow> c \<in> set decimalDigits"

definition digit_val :: "char \<Rightarrow> nat" where
  "digit_val c = of_char c - 48"

fun nat_digits :: "nat \<Rightarrow> string" where
  "nat_digits n = (if n < 10 then [digit_char n]
                   else nat_digits (n div 10) @ [digit_char (n mod 10)])"

declare nat_digits.simps [simp del]

text \<open>\<open>fmt.Sprintf("%d", n)\<close>.\<close>
definition Sprintf_d :: "int \<Rightarrow> string" where
  "Sprintf_d n = (if n < 0 then CHR ''-'' # nat_digits (nat (- n)) else nat_digits (nat n))"

definition digits_val :: "string \<Rightarrow> nat" where
  "digits_val ds = foldl (\<lambda>a c. 10 * a + digit_val c) 0 ds"

text \<open>
  The scanner of \<open>fmt.Sscanf\<close> first skips blanks; without a newline in the format, a
  newline in the input is an error.
\<close>
definition isSpace :: "char \<Rightarrow> bool" where
  "isSpace c \<longleftrightarrow> c \<in> set [CHR 0x09, CHR 0x0B, CHR 0x0C, CHR 0x0D, CHR 0x20]"

fun SkipSpace :: "string \<Rightarrow> string option" where
  "SkipSpace [] = Some []"
| "SkipSpace (c # cs) =
     (if c = CHR 0x0A then None
      else if isSpace c then SkipSpace cs
      else Some (c # cs))"

text \<open>
  \<open>fmt.Sscanf(s, "%d", &v)\<close> for a 64-bit \<open>v\<close>: blanks, an optional sign, the longest
  run of digits and underscores, handed to \<open>strconv.ParseInt\<close> in base 10 (which
  rejects underscores and values outside the 64-bit range). \<open>None\<close> is the error
  return, after which \<open>v\<close> keeps the value it had. Blanks outside ASCII are not
  modelled.
\<close>
definition Sscanf_d :: "string \<Rightarrow> int option" where
  "Sscanf_d s =
     (case SkipSpace s of
        None \<Rightarrow> None
      | Some s1 \<Rightarrow>
          let neg = (s1 \<noteq> [] \<and> hd s1 = CHR ''-'');
              s2 = (if s1 \<noteq> [] \<and> (hd s1 = CHR ''+'' \<or> hd s1 = CHR ''-'') then tl s1 else s1);
              tok = takeWhile (\<lambda>c. is_digit c \<or> c = CHR ''_'') s2;
              v = (if neg then - int (digits_val tok) else int (digits_val tok))
          in if tok = [] then None
             else if CHR ''_'' \<in> set tok then None
             else if v < - (2 ^ 63) \<or> 2 ^ 63 \<le> v then None
             else Some v)"

subsection \<open>Strings\<close>

text \<open>\<open>strings.ToLower\<close>, \<open>strings.TrimSpace\<close> on ASCII; \<open>strings.HasSuffix\<close>,
  \<open>strings.TrimSuffix\<close>.\<close>

definition lower_char :: "char \<Rightarrow> char" where
  "lower_char c =
     (case map_of (zip ''ABCDEFGHIJKLMNOPQRSTUVWXYZ'' ''abcdefghijklmnopqrstuvwxyz'') c of
        Some l \<Rightarrow> l
      | None \<Rightarrow> c)"

definition ToLower :: "string \<Rightarrow> string" where
  "ToLower s = map lower_char s"

definition asciiSpace :: "char \<Rightarrow> bool" where
  "asciiSpace c \<longleftrightarrow> c \<in> set [CHR 0x09, CHR 0x0A, CHR 0x0B, CHR 0x0C, CHR 0x0D, CHR 0x20]"

definition TrimSpace :: "string \<Rightarrow> string" where
  "TrimSpace s = rev (dropWhile asciiSpace (rev (dropWhile asciiSpace s)))"

definition HasSuffix :: "string \<Rightarrow> string \<Rightarrow> bool" where
  "HasSuffix s suf \<longleftrightarrow> length suf \<le> length s \<and> drop (length s - length suf) s = suf"

definition TrimSuffix :: "string \<Rightarrow> string \<Rightarrow> string" where
  "TrimSuffix s suf = (if HasSuffix s suf then take (length s - length suf) s else s)"

subsection \<open>Errors\<close>

datatype error =
    ErrBigTime
  | ErrInvalidWindow string
  | ErrCheckAlertState
  | ErrSearchLogs
  | ErrUnmarshalItem
  | ErrQueryLogs
  | ErrStorePart nat
  | ErrStoreChunk nat
  | ErrPutItem
  | ErrGetItem
  | ErrSendEmail

subsection \<open>Log entries\<close>

record LogEntry =
  Level :: string
  Message :: string
  Source :: string
  Logger :: string
  Timestamp :: Time
  RequestID :: string
  Cursor :: string

subsection \<open>The alert engine\<close>

record AlertRule =
  Pattern :: string
  Window :: string
  Email :: string

datatype AttributeValue = S string | N string | BOOL bool | NULL

type_synonym Item = "string \<rightharpoonup> AttributeValue"

text \<open>The dedup table: the item stored under each \<open>ruleID\<close>, if any.\<close>
type_synonym alerts_table = "string \<rightharpoonup> Item"

text \<open>
  \<open>parseWindow\<close>. \<open>time.ParseDuration\<close> is the standard library's; it is the
  argument \<open>pd\<close>, returning the error text or the duration.
\<close>
definition parseWindow :: "(string \<Rightarrow> string + Duration) \<Rightarrow> string \<Rightarrow> string + Duration" where
  "parseWindow pd window0 =
     (let window = TrimSpace (ToLower window0) in
      if HasSuffix window ''m'' then
        (let minutes = TrimSuffix window ''m'' in
         case pd (minutes @ ''m'') of Inl err \<Rightarrow> Inl err | Inr mins \<Rightarrow> Inr mins)
      else if HasSuffix window ''h'' then pd window
      else if HasSuffix window ''d'' then
        (let days = TrimSuffix window ''d'';
             d = (case Sscanf_d days of None \<Rightarrow> 0 | Some v \<Rightarrow> v)
         in Inr (wrap64 (wrap64 (d * 24) * Hour)))
      else pd window)"

text \<open>
  What one invocation of \<open>processRule\<close> gets from outside: whether each remote call
  fails, what the log search returns, and the clock at each reading.
\<close>
record cycle =
  getItemFails :: bool
  nowCheck :: Time
  nowSearchStart :: Time
  nowSearchEnd :: Time
  searchResult :: "error + LogEntry list"
  nowEmail :: Time
  sendEmailFails :: bool
  nowRecord :: Time
  putItemFails :: bool

text \<open>
  The remote calls an invocation makes, in order. An email carries the clock reading
  printed in its body; an email and a put carry whether the call succeeded.
\<close>
datatype effect =
    CallGetItem string
  | CallSearchLogs string Time Time int
  | CallSendEmail AlertRule "LogEntry list" Duration Time bool
  | CallPutItem Item bool

definition shouldSendAlert :: "cycle \<Rightarrow> alerts_table \<Rightarrow> string \<Rightarrow> Duration \<Rightarrow> error + bool" where
  "shouldSendAlert c tbl ruleID window =
     (if getItemFails c then Inl ErrGetItem
      else case tbl ruleID of
        None \<Rightarrow> Inr True
      | Some item \<Rightarrow>
          (case item ''lastAlertSent'' of
             Some (N v) \<Rightarrow>
               (let lastAlertUnix = (case Sscanf_d v of None \<Rightarrow> 0 | Some x \<Rightarrow> x);
                    lastAlertTime = time_Unix lastAlertUnix
                in if Sub (nowCheck c) lastAlertTime < window then Inr False else Inr True)
           | _ \<Rightarrow> Inr True))"

text \<open>The item \<open>recordAlert\<close> puts, for the clock reading \<open>now\<close>.\<close>
definition alertItem :: "Time \<Rightarrow> string \<Rightarrow> int \<Rightarrow> Duration \<Rightarrow> Item" where
  "alertItem now ruleID matchCount window =
     [''ruleID'' \<mapsto> S ruleID,
      ''lastAlertSent'' \<mapsto> N (Sprintf_d (Unix now)),
      ''matchCount'' \<mapsto> N (Sprintf_d matchCount),
      ''ttl'' \<mapsto> N (Sprintf_d (Unix (Add now (wrap64 (window + 24 * Hour)))))]"

definition recordAlert ::
  "cycle \<Rightarrow> alerts_table \<Rightarrow> string \<Rightarrow> int \<Rightarrow> Duration \<Rightarrow> error option \<times> alerts_table" where
  "recordAlert c tbl ruleID matchCount window =
     (if putItemFails c then (Some ErrPutItem, tbl)
      else (None, tbl(ruleID \<mapsto> alertItem (nowRecord c) ruleID matchCount window)))"

text \<open>
  \<open>sendAlertEmail\<close> builds subject and body from the rule, the matches and the window
  and hands them to SES; only the outcome of that call is kept here.
\<close>
definition sendAlertEmail :: "cycle \<Rightarrow> AlertRule \<Rightarrow> LogEntry list \<Rightarrow> Duration \<Rightarrow> error option" where
  "sendAlertEmail c rule logs window = (if sendEmailFails c then Some ErrSendEmail else None)"

text \<open>
  \<open>processRule\<close> returns its error (if any), the dedup table it leaves and the remote
  calls it made.
\<close>
definition processRule ::
  "(string \<Rightarrow> string + Duration) \<Rightarrow> cycle \<Rightarrow> alerts_table \<Rightarrow> nat \<Rightarrow> AlertRule
     \<Rightarrow> error option \<times> alerts_table \<times> effect list" where
  "processRule pd c tbl ruleIndex rule =
     (case parseWindow pd (Window rule) of
        Inl err \<Rightarrow> (Some (ErrInvalidWindow err), tbl, [])
      | Inr windowDuration \<Rightarrow>
          (let ruleID = ''rule-'' @ Sprintf_d (int ruleIndex) in
           case shouldSendAlert c tbl ruleID windowDuration of
             Inl err \<Rightarrow> (Some ErrCheckAlertState, tbl, [CallGetItem ruleID])
           | Inr False \<Rightarrow> (None, tbl, [CallGetItem ruleID])
           | Inr True \<Rightarrow>
               (let startTime = Add (nowSearchStart c) (wrap64 (- windowDuration));
                    search = CallSearchLogs (Pattern rule) startTime (nowSearchEnd c) 200
                in case searchResult c of
                     Inl err \<Rightarrow> (Some ErrSearchLogs, tbl, [CallGetItem ruleID, search])
                   | Inr logs \<Rightarrow>
                       if length logs = 0 then (None, tbl, [CallGetItem ruleID, search])
                       else
                         (let email = CallSendEmail rule logs windowDuration (nowEmail c) (\<not> sendEmailFails c) in
                          case sendAlertEmail c rule logs windowDuration of
                            Some err \<Rightarrow> (None, tbl, [CallGetItem ruleID, search, email])
                          | None \<Rightarrow>
                              (let put = CallPutItem
                                     (alertItem (nowRecord c) ruleID (int (length logs)) windowDuration)
                                     (\<not> putItemFails c)
                               in (None,
                                   snd (recordAlert c tbl ruleID (int (length logs)) windowDuration),
                                   [CallGetItem ruleID, search, email, put]))))))"


text \<open>The delivered notifications of a run: the clock reading of each successful email.\<close>
fun notifications :: "effect list \<Rightarrow> Time list" where
  "notifications [] = []"
| "notifications (CallSendEmail rule logs w t ok # es) =
     (if ok then t # notifications es else notifications es)"
| "notifications (e # es) = notifications es"

subsection \<open>Example inputs\<close>

text \<open>What \<open>time.ParseDuration\<close> returns on the two window strings used below.\<close>
definition examplePD :: "string \<Rightarrow> string + Duration" where
  "examplePD s = (if s = ''10m'' then Inr (600 * Second)
                  else if s = ''1h'' then Inr Hour
                  else Inl ''time: invalid duration'')"

definition exampleHit :: LogEntry where
  "exampleHit = \<lparr>Level = ''ERROR'', Message = ''boom'', Source = ''app'', Logger = ''main'',
     Timestamp = 1700000000000000000, RequestID = ''none'', Cursor = []\<rparr>"

text \<open>An invocation at clock reading \<open>t\<close> (the state is recorded 50 ms later) in which
  every remote call succeeds and the search finds one match.\<close>
definition cycleAt :: "Time \<Rightarrow> cycle" where
  "cycleAt t = \<lparr>getItemFails = False, nowCheck = t, nowSearchStart = t, nowSearchEnd = t,
     searchResult = Inr [exampleHit], nowEmail = t, sendEmailFails = False,
     nowRecord = t + 50 * Millisecond, putItemFails = False\<rparr>"

definition exampleRule :: "string \<Rightarrow> AlertRule" where
  "exampleRule w = \<lparr>Pattern = ''ERROR'', Window = w, Email = ''ops@example.com''\<rparr>"


text \<open>An invocation whose email fails.\<close>
definition failedEmailCycle :: cycle where
  "failedEmailCycle = (cycleAt 1700000000000000000)\<lparr>sendEmailFails := True\<rparr>"

subsection \<open>ULID identifiers\<close>

text \<open>
  The identifiers come from the library \<open>oklog/ulid\<close>: 48 bits of Unix milliseconds
  followed by 80 bits of entropy, printed as 26 characters of Crockford's base 32 (10 for
  the time, 16 for the entropy), most significant digit first. The library works on 16
  bytes with shifts and masks; the digits are the same as in the positional form below.
\<close>

definition Encoding :: string where
  "Encoding = ''0123456789ABCDEFGHJKMNPQRSTVWXYZ''"

text \<open>\<open>enc32 k n\<close>: the \<open>k\<close> low base-32 digits of \<open>n\<close>, most significant first.\<close>
fun enc32 :: "nat \<Rightarrow> nat \<Rightarrow> string" where
  "enc32 0 n = []"
| "enc32 (Suc k) n = (Encoding ! ((n div 32 ^ k) mod 32)) # enc32 k n"

record ULID =
  ms :: nat
  entropy :: nat

text \<open>\<open>ulid.Timestamp(t)\<close> is
  \<open>uint64(t.Unix())*1000 + uint64(t.Nanosecond()/int(time.Millisecond))\<close>.\<close>
definition ulid_Timestamp :: "Time \<Rightarrow> nat" where
  "ulid_Timestamp t = nat ((Unix t * 1000 + Nanosecond t div Millisecond) mod 2 ^ 64)"

definition maxTime :: nat where "maxTime = 2 ^ 48 - 1"

text \<open>
  \<open>ulid.MustNew(ms, entropy)\<close> panics when the time does not fit 48 bits (the panic
  is the error \<open>ErrBigTime\<close> here). The entropy is \<open>None\<close> for a nil reader (all
  entropy bytes zero) and otherwise the 10 bytes read from it, as a number.
\<close>
definition MustNew :: "nat \<Rightarrow> nat option \<Rightarrow> error + ULID" where
  "MustNew t ent =
     (if maxTime < t then Inl ErrBigTime
      else Inr \<lparr>ms = t, entropy = (case ent of None \<Rightarrow> 0 | Some r \<Rightarrow> r mod 2 ^ 80)\<rparr>)"

definition ulid_String :: "ULID \<Rightarrow> string" where
  "ulid_String u = enc32 10 (ms u) @ enc32 16 (entropy u)"

subsection \<open>Stored items\<close>

definition MaxMessageSize :: nat where "MaxMessageSize = 350 * 1024"
definition TTLDays :: int where "TTLDays = 180"
definition PartitionKey :: string where "PartitionKey = ''LOGS''"

text \<open>
  \<open>dynamoDBLogItem\<close>, fields named by their attribute names. The struct of
  \<open>logs.go\<close> has no \<open>chunk_index\<close> and \<open>total_chunks\<close>; an item written by it has
  neither attribute, which the chunk-aware reader sees as zero.
\<close>
record dynamoDBLogItem =
  pk :: string
  timestamp_seq :: string
  timestamp :: string
  level :: string
  message :: string
  source :: string
  logger :: string
  request_id :: string
  chunk_index :: int
  total_chunks :: int
  expire_at :: int

text \<open>
  An item of the table as \<open>attributevalue.UnmarshalMap\<close> sees it: either the attribute
  map of a \<open>dynamoDBLogItem\<close>, or a map that does not fit the struct (only its keys are
  kept). The store itself writes the first kind only.
\<close>
datatype stored = Stored dynamoDBLogItem | Foreign string string

fun UnmarshalMap :: "stored \<Rightarrow> error + dynamoDBLogItem" where
  "UnmarshalMap (Stored dbItem) = Inr dbItem"
| "UnmarshalMap (Foreign p k) = Inl ErrUnmarshalItem"

fun stored_pk :: "stored \<Rightarrow> string" where
  "stored_pk (Stored dbItem) = pk dbItem"
| "stored_pk (Foreign p k) = p"

fun sortKey :: "stored \<Rightarrow> string" where
  "sortKey (Stored dbItem) = timestamp_seq dbItem"
| "sortKey (Foreign p k) = k"

type_synonym table = "stored list"

text \<open>DynamoDB \<open>PutItem\<close>: the item replaces the one with the same primary key.\<close>
definition PutItem :: "table \<Rightarrow> dynamoDBLogItem \<Rightarrow> table" where
  "PutItem tbl item =
     Stored item # filter (\<lambda>x. \<not> (stored_pk x = pk item \<and> sortKey x = timestamp_seq item)) tbl"

text \<open>
  DynamoDB \<open>Query\<close> on the partition \<open>LOGS\<close>: the items whose sort key satisfies the
  key condition, in ascending or descending order of the sort key (bytewise), cut at
  \<open>Limit\<close> if one is given. (The service's cap on the size of one response is not
  modelled.)
\<close>
definition Query :: "table \<Rightarrow> (string \<Rightarrow> bool) \<Rightarrow> bool \<Rightarrow> nat option \<Rightarrow> stored list" where
  "Query tbl keyCondition scanForward limit =
     (let matching = sort_key sortKey
                       (filter (\<lambda>x. stored_pk x = PartitionKey \<and> keyCondition (sortKey x)) tbl);
          ordered = (if scanForward then matching else rev matching)
      in case limit of None \<Rightarrow> ordered | Some n \<Rightarrow> take n ordered)"

subsection \<open>Writing log entries\<close>

text \<open>
  What a write gets from outside: the \<open>k\<close>-th read of 10 bytes from \<open>rand.Reader\<close>,
  the clock at the \<open>k\<close>-th put, whether the \<open>k\<close>-th put fails, and
  \<open>Time.Format(time.RFC3339Nano)\<close> of the standard library.
\<close>
record store_env =
  rand :: "nat \<Rightarrow> nat"
  clock :: "nat \<Rightarrow> Time"
  putFails :: "nat \<Rightarrow> bool"
  formatTime :: "Time \<Rightarrow> string"

text \<open>
  The write functions return their error (if any) and the items they have put, in order.
  \<open>storeSingleItem\<close> of \<open>logs.go\<close>; \<open>k\<close> numbers the put.
\<close>
definition singleItem :: "store_env \<Rightarrow> nat \<Rightarrow> LogEntry \<Rightarrow> string \<Rightarrow> dynamoDBLogItem" where
  "singleItem w k entry ulidStr =
     (let expireAt = Unix (Add (clock w k) (TTLDays * 24 * Hour));
          requestID = (if RequestID entry = [] then ''none'' else RequestID entry)
      in \<lparr>pk = PartitionKey,
          timestamp_seq = ulidStr @ ''#0'',
          timestamp = formatTime w (Timestamp entry),
          level = Level entry,
          message = Message entry,
          source = Source entry,
          logger = Logger entry,
          request_id = requestID,
          chunk_index = 0,
          total_chunks = 0,
          expire_at = expireAt\<rparr>)"

definition storeSingleItem ::
  "store_env \<Rightarrow> nat \<Rightarrow> LogEntry \<Rightarrow> string \<Rightarrow> error option \<times> dynamoDBLogItem list" where
  "storeSingleItem w k entry ulidStr =
     (let item = singleItem w k entry ulidStr
      in if putFails w k then (Some ErrPutItem, []) else (None, [item]))"

text \<open>The part \<open>i\<close> of \<open>numParts\<close> of an oversized message, with its markers.\<close>
definition partMessage :: "string \<Rightarrow> nat \<Rightarrow> nat \<Rightarrow> string" where
  "partMessage messageBytes numParts i =
     (let start = i * MaxMessageSize;
          end = (if start + MaxMessageSize > length messageBytes then length messageBytes
                 else start + MaxMessageSize);
          slice = take (end - start) (drop start messageBytes);
          marker = ''[CONTINUED '' @ Sprintf_d (int i + 1) @ ''/'' @ Sprintf_d (int numParts) @ '']''
      in if i = 0 then slice @ '' '' @ marker
         else if int i = int numParts - 1 then marker @ '' '' @ slice
         else marker @ '' '' @ slice @ '' '' @ marker)"

definition partEntry :: "LogEntry \<Rightarrow> nat \<Rightarrow> nat \<Rightarrow> LogEntry" where
  "partEntry entry numParts i =
     \<lparr>Level = Level entry,
      Message = partMessage (Message entry) numParts i,
      Source = Source entry,
      Logger = Logger entry,
      Timestamp = Add (Timestamp entry) (int i * Millisecond),
      RequestID = RequestID entry,
      Cursor = []\<rparr>"

text \<open>The loop of \<open>StoreLogEntry\<close> in \<open>logs.go\<close>, from part \<open>i\<close> on.\<close>
function storeParts ::
  "store_env \<Rightarrow> LogEntry \<Rightarrow> nat \<Rightarrow> nat \<Rightarrow> error option \<times> dynamoDBLogItem list" where
  "storeParts w entry numParts i =
     (if i < numParts then
        (case MustNew (ulid_Timestamp (Timestamp (partEntry entry numParts i))) (Some (rand w i)) of
              Inl err \<Rightarrow> (Some err, [])
            | Inr uid \<Rightarrow>
                (case storeSingleItem w i (partEntry entry numParts i) (ulid_String uid) of
                   (Some err, done) \<Rightarrow> (Some (ErrStorePart i), done)
                 | (None, done) \<Rightarrow>
                     (let rest = storeParts w entry numParts (Suc i)
                      in (fst rest, done @ snd rest))))
      else (None, []))"
  by pat_completeness auto
termination
  by (relation "measure (\<lambda>(w, entry, numParts, i). numParts - i)") auto

declare storeParts.simps [simp del]

definition StoreLogEntry :: "store_env \<Rightarrow> LogEntry \<Rightarrow> error option \<times> dynamoDBLogItem list" where
  "StoreLogEntry w entry =
     (let messageBytes = Message entry in
      if length messageBytes \<le> MaxMessageSize then
        (case MustNew (ulid_Timestamp (Timestamp entry)) (Some (rand w 0)) of
           Inl err \<Rightarrow> (Some err, [])
         | Inr uid \<Rightarrow> storeSingleItem w 0 entry (ulid_String uid))
      else
        (let numParts = (length messageBytes + MaxMessageSize - 1) div MaxMessageSize
         in storeParts w entry numParts 0))"

text \<open>\<open>TimeToCursor\<close>: the identifier of an instant with zero entropy.\<close>
definition TimeToCursor :: "Time \<Rightarrow> error + string" where
  "TimeToCursor t = (case MustNew (ulid_Timestamp t) None of
                       Inl err \<Rightarrow> Inl err
                     | Inr uid \<Rightarrow> Inr (ulid_String uid))"

text \<open>The chunk-group store: \<open>storeSingleItem\<close> with chunk index and count.\<close>
definition storeSingleItem_chunked ::
  "store_env \<Rightarrow> LogEntry \<Rightarrow> string \<Rightarrow> int \<Rightarrow> int \<Rightarrow> error option \<times> dynamoDBLogItem list" where
  "storeSingleItem_chunked w entry ulidStr chunkIndex totalChunks =
     (let expireAt = Unix (Add (clock w 0) (TTLDays * 24 * Hour));
          requestID = (if RequestID entry = [] then ''none'' else RequestID entry);
          item = \<lparr>pk = PartitionKey,
                  timestamp_seq = ulidStr @ ''#'' @ Sprintf_d chunkIndex,
                  timestamp = formatTime w (Timestamp entry),
                  level = Level entry,
                  message = Message entry,
                  source = Source entry,
                  logger = Logger entry,
                  request_id = requestID,
                  chunk_index = chunkIndex,
                  total_chunks = totalChunks,
                  expire_at = expireAt\<rparr>
      in if putFails w 0 then (Some ErrPutItem, []) else (None, [item]))"

text \<open>The item of chunk \<open>i\<close> in \<open>storeChunkedItems\<close>.\<close>
definition chunkItem ::
  "store_env \<Rightarrow> LogEntry \<Rightarrow> string \<Rightarrow> string \<Rightarrow> nat \<Rightarrow> int \<Rightarrow> string \<Rightarrow> nat \<Rightarrow> dynamoDBLogItem" where
  "chunkItem w entry ulidStr messageBytes totalChunks expireAt requestID i =
     (let start = i * MaxMessageSize;
          end = (if start + MaxMessageSize > length messageBytes then length messageBytes
                 else start + MaxMessageSize);
          chunk = take (end - start) (drop start messageBytes)
      in \<lparr>pk = PartitionKey,
          timestamp_seq = ulidStr @ ''#'' @ Sprintf_d (int i),
          timestamp = formatTime w (Timestamp entry),
          level = Level entry,
          message = chunk,
          source = Source entry,
          logger = Logger entry,
          request_id = requestID,
          chunk_index = int i,
          total_chunks = int totalChunks,
          expire_at = expireAt\<rparr>)"

text \<open>The loop of \<open>storeChunkedItems\<close>, from chunk \<open>i\<close> on.\<close>
function storeChunks ::
  "store_env \<Rightarrow> LogEntry \<Rightarrow> string \<Rightarrow> string \<Rightarrow> nat \<Rightarrow> int \<Rightarrow> string \<Rightarrow> nat
     \<Rightarrow> error option \<times> dynamoDBLogItem list" where
  "storeChunks w entry ulidStr messageBytes totalChunks expireAt requestID i =
     (if i < totalChunks then
        (let item = chunkItem w entry ulidStr messageBytes totalChunks expireAt requestID i
         in if putFails w i then (Some (ErrStoreChunk i), [])
            else (let rest = storeChunks w entry ulidStr messageBytes totalChunks expireAt
                               requestID (Suc i)
                  in (fst rest, item # snd rest)))
      else (None, []))"
  by pat_completeness auto
termination
  by (relation "measure (\<lambda>(w, entry, ulidStr, messageBytes, totalChunks, expireAt, requestID, i).
                           totalChunks - i)") auto

declare storeChunks.simps [simp del]

definition storeChunkedItems ::
  "store_env \<Rightarrow> LogEntry \<Rightarrow> string \<Rightarrow> string \<Rightarrow> error option \<times> dynamoDBLogItem list" where
  "storeChunkedItems w entry ulidStr messageBytes =
     (let totalChunks = (length messageBytes + MaxMessageSize - 1) div MaxMessageSize;
          expireAt = Unix (Add (clock w 0) (TTLDays * 24 * Hour));
          requestID = (if RequestID entry = [] then ''none'' else RequestID entry)
      in storeChunks w entry ulidStr messageBytes totalChunks expireAt requestID 0)"

definition StoreLogEntry_chunked ::
  "store_env \<Rightarrow> LogEntry \<Rightarrow> error option \<times> dynamoDBLogItem list" where
  "StoreLogEntry_chunked w entry =
     (case MustNew (ulid_Timestamp (Timestamp entry)) (Some (rand w 0)) of
        Inl err \<Rightarrow> (Some err, [])
      | Inr uid \<Rightarrow>
          (let ulidStr = ulid_String uid;
               messageBytes = Message entry;
               messageSize = length messageBytes
           in if messageSize \<le> MaxMessageSize then storeSingleItem_chunked w entry ulidStr 0 1
              else storeChunkedItems w entry ulidStr messageBytes))"

text \<open>The table after an append: the puts applied in order.\<close>
definition putAll :: "table \<Rightarrow> dynamoDBLogItem list \<Rightarrow> table" where
  "putAll tbl items = foldl PutItem tbl items"

subsection \<open>Reading log entries\<close>

text \<open>
  What a read gets from outside: \<open>time.Parse(time.RFC3339Nano, s)\<close> of the standard
  library (\<open>None\<close> is its error), whether the \<open>k\<close>-th query fails, how the paginator
  cuts a result into pages, and the order in which Go ranges over the map of chunk groups.
\<close>
record read_env =
  parseTime :: "string \<Rightarrow> Time option"
  queryFails :: "nat \<Rightarrow> bool"
  paging :: "stored list \<Rightarrow> stored list list"
  rangeOrder :: "(string \<times> dynamoDBLogItem list) list \<Rightarrow> (string \<times> dynamoDBLogItem list) list"

text \<open>\<open>strings.Split(s, "#")[0]\<close>.\<close>
definition ulidPart :: "string \<Rightarrow> string" where
  "ulidPart s = takeWhile (\<lambda>c. c \<noteq> CHR ''#'') s"

text \<open>
  The \<open>LogEntry\<close> built from an item and a message; the error of \<open>time.Parse\<close> is
  dropped, which leaves the zero time.
\<close>
definition toLogEntry :: "read_env \<Rightarrow> dynamoDBLogItem \<Rightarrow> string \<Rightarrow> LogEntry" where
  "toLogEntry r dbItem msg =
     \<lparr>Level = level dbItem,
      Message = msg,
      Source = source dbItem,
      Logger = logger dbItem,
      Timestamp = (case parseTime r (timestamp dbItem) of None \<Rightarrow> zeroTime | Some t \<Rightarrow> t),
      RequestID = request_id dbItem,
      Cursor = ulidPart (timestamp_seq dbItem)\<rparr>"

text \<open>\<open>unmarshalAndReassemble\<close> of \<open>logs.go\<close>: the loop, with the entries so far.\<close>
fun unmarshalItems :: "read_env \<Rightarrow> stored list \<Rightarrow> LogEntry list \<Rightarrow> error + LogEntry list" where
  "unmarshalItems r [] logs = Inr logs"
| "unmarshalItems r (item # items) logs =
     (case UnmarshalMap item of
        Inl err \<Rightarrow> Inl ErrUnmarshalItem
      | Inr dbItem \<Rightarrow> unmarshalItems r items (logs @ [toLogEntry r dbItem (message dbItem)]))"

definition unmarshalAndReassemble :: "read_env \<Rightarrow> stored list \<Rightarrow> error + LogEntry list" where
  "unmarshalAndReassemble r items = unmarshalItems r items []"

text \<open>
  The chunk-aware \<open>unmarshalAndReassemble\<close>. \<open>chunkedMessages\<close> is kept as an
  association list in order of first occurrence; \<open>appendChunk\<close> is
  \<open>chunkedMessages[k] = append(chunkedMessages[k], dbItem)\<close>.
\<close>
fun appendChunk ::
  "string \<Rightarrow> dynamoDBLogItem \<Rightarrow> (string \<times> dynamoDBLogItem list) list
     \<Rightarrow> (string \<times> dynamoDBLogItem list) list" where
  "appendChunk k dbItem [] = [(k, [dbItem])]"
| "appendChunk k dbItem ((k', chunks) # m) =
     (if k = k' then (k', chunks @ [dbItem]) # m else (k', chunks) # appendChunk k dbItem m)"

fun splitItems ::
  "stored list \<Rightarrow> (string \<times> dynamoDBLogItem list) list \<Rightarrow> dynamoDBLogItem list
     \<Rightarrow> error + ((string \<times> dynamoDBLogItem list) list \<times> dynamoDBLogItem list)" where
  "splitItems [] chunkedMessages singleMessages = Inr (chunkedMessages, singleMessages)"
| "splitItems (item # items) chunkedMessages singleMessages =
     (case UnmarshalMap item of
        Inl err \<Rightarrow> Inl ErrUnmarshalItem
      | Inr dbItem \<Rightarrow>
          if total_chunks dbItem > 1
          then splitItems items
                 (appendChunk (ulidPart (timestamp_seq dbItem)) dbItem chunkedMessages) singleMessages
          else splitItems items chunkedMessages (singleMessages @ [dbItem]))"

definition reassemble :: "read_env \<Rightarrow> dynamoDBLogItem list \<Rightarrow> LogEntry list" where
  "reassemble r chunks =
     (if length chunks = 0 then []
      else [toLogEntry r (hd chunks) (concat (map message chunks))])"

definition unmarshalAndReassemble_chunked :: "read_env \<Rightarrow> stored list \<Rightarrow> error + LogEntry list" where
  "unmarshalAndReassemble_chunked r items =
     (case splitItems items [] [] of
        Inl err \<Rightarrow> Inl err
      | Inr (chunkedMessages, singleMessages) \<Rightarrow>
          Inr (concat (map (\<lambda>(k, chunks). reassemble r chunks) (rangeOrder r chunkedMessages))
               @ map (\<lambda>dbItem. toLogEntry r dbItem (message dbItem)) singleMessages))"

text \<open>The clamping of \<open>limit\<close> at the head of \<open>GetLogs\<close>.\<close>
definition clampLimit :: "int \<Rightarrow> int" where
  "clampLimit limit = (let l = (if limit \<le> 0 then 100 else limit) in if l > 500 then 500 else l)"

text \<open>\<open>GetLogs\<close> of \<open>logs.go\<close>: the query is limited to \<open>limit\<close> items.\<close>
definition GetLogs ::
  "read_env \<Rightarrow> table \<Rightarrow> int \<Rightarrow> string \<Rightarrow> string \<Rightarrow> error + LogEntry list" where
  "GetLogs r tbl limit0 afterCursor beforeCursor =
     (let limit = clampLimit limit0;
          scanForward = (afterCursor \<noteq> []);
          keyCondition =
            (if afterCursor \<noteq> [] then (\<lambda>k. k > afterCursor @ ''#0'')
             else if beforeCursor \<noteq> [] then (\<lambda>k. k < beforeCursor @ ''#0'')
             else (\<lambda>k. True))
      in if queryFails r 0 then Inl ErrQueryLogs
         else case unmarshalAndReassemble r (Query tbl keyCondition scanForward (Some (nat limit))) of
                Inl err \<Rightarrow> Inl err
              | Inr allLogs \<Rightarrow>
                  (let allLogs1 = (if beforeCursor \<noteq> [] \<and> \<not> scanForward then rev allLogs else allLogs)
                   in Inr (if int (length allLogs1) > limit then take (nat limit) allLogs1
                           else allLogs1)))"

text \<open>\<open>GetLogs\<close> of the chunk-group store: the query is limited to \<open>limit * 2\<close> items.\<close>
definition GetLogs_chunked ::
  "read_env \<Rightarrow> table \<Rightarrow> int \<Rightarrow> string \<Rightarrow> string \<Rightarrow> error + LogEntry list" where
  "GetLogs_chunked r tbl limit0 afterCursor beforeCursor =
     (let limit = clampLimit limit0;
          scanForward = (afterCursor \<noteq> []);
          keyCondition =
            (if afterCursor \<noteq> [] then (\<lambda>k. k > afterCursor @ ''#0'')
             else if beforeCursor \<noteq> [] then (\<lambda>k. k < beforeCursor @ ''#0'')
             else (\<lambda>k. True))
      in if queryFails r 0 then Inl ErrQueryLogs
         else case unmarshalAndReassemble_chunked r
                     (Query tbl keyCondition scanForward (Some (nat (limit * 2)))) of
                Inl err \<Rightarrow> Inl err
              | Inr allLogs \<Rightarrow>
                  (let allLogs1 = (if beforeCursor \<noteq> [] \<and> \<not> scanForward then rev allLogs else allLogs)
                   in Inr (if int (length allLogs1) > limit then take (nat limit) allLogs1
                           else allLogs1)))"

text \<open>
  The paginator loop of \<open>queryLogsByTimeRange\<close>: page \<open>k\<close> is fetched, decoded by
  \<open>decode\<close> and appended.
\<close>
fun fetchPages ::
  "read_env \<Rightarrow> (stored list \<Rightarrow> error + LogEntry list) \<Rightarrow> stored list list \<Rightarrow> nat \<Rightarrow> LogEntry list
     \<Rightarrow> error + LogEntry list" where
  "fetchPages r decode [] k allLogs = Inr allLogs"
| "fetchPages r decode (page # pages) k allLogs =
     (if queryFails r k then Inl ErrQueryLogs
      else case decode page of
             Inl err \<Rightarrow> Inl err
           | Inr items \<Rightarrow> fetchPages r decode pages (Suc k) (allLogs @ items))"

text \<open>The items of the time range, most recent first, as the paginator delivers them (at
  least one page).\<close>
definition timeRangePages :: "read_env \<Rightarrow> table \<Rightarrow> ULID \<Rightarrow> ULID \<Rightarrow> stored list list" where
  "timeRangePages r tbl startULID endULID =
     (case paging r (Query tbl (\<lambda>k. ulid_String startULID @ ''#0'' \<le> k
                                    \<and> k \<le> ulid_String endULID @ ''#999'') False None) of
        [] \<Rightarrow> [[]]
      | pages \<Rightarrow> pages)"

definition queryLogsByTimeRange ::
  "read_env \<Rightarrow> table \<Rightarrow> Time \<Rightarrow> Time \<Rightarrow> error + LogEntry list" where
  "queryLogsByTimeRange r tbl startTime endTime =
     (case MustNew (ulid_Timestamp startTime) None of
        Inl err \<Rightarrow> Inl err
      | Inr startULID \<Rightarrow>
          (case MustNew (ulid_Timestamp endTime) None of
             Inl err \<Rightarrow> Inl err
           | Inr endULID \<Rightarrow>
               fetchPages r (unmarshalAndReassemble r) (timeRangePages r tbl startULID endULID) 0 []))"

definition queryLogsByTimeRange_chunked ::
  "read_env \<Rightarrow> table \<Rightarrow> Time \<Rightarrow> Time \<Rightarrow> error + LogEntry list" where
  "queryLogsByTimeRange_chunked r tbl startTime endTime =
     (case MustNew (ulid_Timestamp startTime) None of
        Inl err \<Rightarrow> Inl err
      | Inr startULID \<Rightarrow>
          (case MustNew (ulid_Timestamp endTime) None of
             Inl err \<Rightarrow> Inl err
           | Inr endULID \<Rightarrow>
               fetchPages r (unmarshalAndReassemble_chunked r)
                 (timeRangePages r tbl startULID endULID) 0 []))"

subsection \<open>Example inputs for the log store\<close>

text \<open>
  A write environment in which no put fails and the entropy is \<open>7\<close>, and a read
  environment in which no query fails, every result is one page and the map of chunk
  groups is ranged over in order of first occurrence. Instants are formatted as their
  nanosecond count in decimal (a stand-in for RFC 3339, which the properties do not
  depend on).
\<close>
definition exampleEnv :: store_env where
  "exampleEnv = \<lparr>rand = (\<lambda>k. 7), clock = (\<lambda>k. 1700000000 * Second),
                  putFails = (\<lambda>k. False), formatTime = Sprintf_d\<rparr>"

definition exampleReadEnv :: read_env where
  "exampleReadEnv = \<lparr>parseTime = Sscanf_d, queryFails = (\<lambda>k. False),
                      paging = (\<lambda>items. [items]), rangeOrder = (\<lambda>m. m)\<rparr>"

text \<open>An entry at instant \<open>t\<close> with the message \<open>msg\<close>.\<close>
definition entryAt :: "Time \<Rightarrow> string \<Rightarrow> LogEntry" where
  "entryAt t msg = \<lparr>Level = ''INFO'', Message = msg, Source = ''app'', Logger = ''main'',
                     Timestamp = t, RequestID = [], Cursor = []\<rparr>"



text \<open>The same write environment with entropy \<open>3\<close>.\<close>
definition lowEntropyEnv :: store_env where
  "lowEntropyEnv = exampleEnv\<lparr>rand := (\<lambda>k. 3)\<rparr>"

text \<open>
  Five short entries, one millisecond apart, appended to an empty table through the
  chunk-group store and through the store of \<open>logs.go\<close>; \<open>fifthCursor\<close> and the
  others are their cursors, \<open>cursorX\<close> is the cursor of the instant one millisecond
  after the fifth.
\<close>
definition fiveEntries :: "LogEntry list" where
  "fiveEntries = [entryAt 1700000000001000000 ''e1'', entryAt 1700000000002000000 ''e2'',
                  entryAt 1700000000003000000 ''e3'', entryAt 1700000000004000000 ''e4'',
                  entryAt 1700000000005000000 ''e5'']"

definition fiveTable_chunked :: table where
  "fiveTable_chunked =
     foldl (\<lambda>tbl entry. putAll tbl (snd (StoreLogEntry_chunked exampleEnv entry))) [] fiveEntries"

definition fiveTable :: table where
  "fiveTable = foldl (\<lambda>tbl entry. putAll tbl (snd (StoreLogEntry exampleEnv entry))) [] fiveEntries"

definition cursorX :: string where
  "cursorX = ulid_String \<lparr>ms = 1700000000006, entropy = 0\<rparr>"

text \<open>An entry of 400000 bytes appended to an empty table through the chunk-group store,
  and the same table after a short entry five milliseconds later.\<close>
definition bigEntry :: LogEntry where
  "bigEntry = entryAt 1700000000000000000 (replicate 400000 CHR ''a'')"

definition bigCursor :: string where
  "bigCursor = ulid_String \<lparr>ms = 1700000000000, entropy = 7\<rparr>"

definition laterCursor :: string where
  "laterCursor = ulid_String \<lparr>ms = 1700000000005, entropy = 7\<rparr>"

definition chunkedTable :: table where
  "chunkedTable = putAll [] (snd (StoreLogEntry_chunked exampleEnv bigEntry))"

definition mixedTable :: table where
  "mixedTable =
     putAll chunkedTable (snd (StoreLogEntry_chunked exampleEnv (entryAt 1700000000005000000 ''later'')))"

text \<open>The items the example appends write: a short one, and a chunk of \<open>len\<close> bytes of
  the big entry.\<close>
definition shortItem :: "nat \<Rightarrow> string \<Rightarrow> string \<Rightarrow> Time \<Rightarrow> int \<Rightarrow> dynamoDBLogItem" where
  "shortItem k key msg t tc = \<lparr>pk = ''LOGS'', timestamp_seq = key, timestamp = Sprintf_d t,
     level = ''INFO'', message = msg, source = ''app'', logger = ''main'', request_id = ''none'',
     chunk_index = 0, total_chunks = tc, expire_at = Unix (Add (1700000000 * Second) (TTLDays * 24 * Hour))\<rparr>"

definition chunkOf :: "nat \<Rightarrow> string \<Rightarrow> nat \<Rightarrow> dynamoDBLogItem" where
  "chunkOf i key len = \<lparr>pk = ''LOGS'', timestamp_seq = key, timestamp = Sprintf_d 1700000000000000000,
     level = ''INFO'', message = replicate len CHR ''a'', source = ''app'', logger = ''main'',
     request_id = ''none'', chunk_index = int i, total_chunks = 2,
     expire_at = Unix (Add (1700000000 * Second) (TTLDays * 24 * Hour))\<rparr>"

text \<open>The same two appends through the store of \<open>logs.go\<close>, and a part it writes.\<close>
definition partsTable :: table where
  "partsTable = putAll [] (snd (StoreLogEntry exampleEnv bigEntry))"

definition mixedPartsTable :: table where
  "mixedPartsTable =
     putAll partsTable (snd (StoreLogEntry exampleEnv (entryAt 1700000000005000000 ''later'')))"

definition partOf :: "nat \<Rightarrow> string \<Rightarrow> dynamoDBLogItem" where
  "partOf i key = \<lparr>pk = ''LOGS'', timestamp_seq = key,
     timestamp = Sprintf_d (1700000000000000000 + int i * Millisecond),
     level = ''INFO'', message = partMessage (replicate 400000 CHR ''a'') 2 i, source = ''app'',
     logger = ''main'', request_id = ''none'', chunk_index = 0, total_chunks = 0,
     expire_at = Unix (Add (1700000000 * Second) (TTLDays * 24 * Hour))\<rparr>"


section \<open>Properties\<close>

lemmas eval_simps = Sprintf_d_def nat_digits.simps digit_char_def decimalDigits_def
  Sscanf_d_def is_digit_def isSpace_def digits_val_def digit_val_def Let_def
  TrimSpace_def ToLower_def lower_char_def asciiSpace_def HasSuffix_def TrimSuffix_def

subsection \<open>Decimal formatting and scanning\<close>










subsection \<open>Alert engine\<close>











lemma parseWindow_10m: "parseWindow examplePD ''10m'' = Inr (600 * Second)"
  by (simp add: parseWindow_def examplePD_def eval_simps)







text \<open>
  C7. The dedup table changes only through the put that follows a successful email in the
  same invocation: when the email fails, the table is left as it was and no put is made;
  every put is immediately preceded by the email of that rule and that email succeeded.
\<close>
theorem processRule_writes_only_after_send:
  assumes "processRule pd c tbl i rule = (res, tbl', tr)"
  shows "(sendEmailFails c \<longrightarrow> tbl' = tbl \<and> (\<forall>it ok. CallPutItem it ok \<notin> set tr))
       \<and> (\<forall>it ok. CallPutItem it ok \<in> set tr \<longrightarrow>
             \<not> sendEmailFails c
             \<and> (\<exists>pre logs w t. tr = pre @ [CallSendEmail rule logs w t True, CallPutItem it ok]))
       \<and> (tbl' \<noteq> tbl \<longrightarrow> (\<exists>it. CallPutItem it True \<in> set tr))"
  using assms
  by (auto simp: processRule_def Let_def sendAlertEmail_def recordAlert_def
           split: sum.splits bool.splits option.splits if_splits)

text \<open>The email fails: the table is unchanged, no put is made, nothing is delivered.\<close>
theorem processRule_writes_only_after_send_witness:
  "sendEmailFails failedEmailCycle
   \<and> fst (snd (processRule examplePD failedEmailCycle Map.empty 0 (exampleRule ''10m''))) = Map.empty
   \<and> (\<forall>it ok. CallPutItem it ok
          \<notin> set (snd (snd (processRule examplePD failedEmailCycle Map.empty 0 (exampleRule ''10m'')))))
   \<and> notifications (snd (snd (processRule examplePD failedEmailCycle Map.empty 0 (exampleRule ''10m'')))) = []"
  using processRule_writes_only_after_send[of examplePD failedEmailCycle Map.empty 0 "exampleRule ''10m''"
      "fst (processRule examplePD failedEmailCycle Map.empty 0 (exampleRule ''10m''))"
      "fst (snd (processRule examplePD failedEmailCycle Map.empty 0 (exampleRule ''10m'')))"
      "snd (snd (processRule examplePD failedEmailCycle Map.empty 0 (exampleRule ''10m'')))"]
  by (simp add: failedEmailCycle_def cycleAt_def)
     (simp add: processRule_def parseWindow_10m exampleRule_def shouldSendAlert_def
        sendAlertEmail_def exampleHit_def)

text \<open>
  C10. When the state read succeeds and the rule's dedup record exists but has no
  \<open>lastAlertSent\<close> attribute, or one that is not a number attribute,
  \<open>shouldSendAlert\<close> returns true.
\<close>
theorem shouldSendAlert_fails_open:
  assumes "\<not> getItemFails c" and "tbl ruleID = Some item"
    and "\<forall>v. item ''lastAlertSent'' \<noteq> Some (N v)"
  shows "shouldSendAlert c tbl ruleID window = Inr True"
  using assms
  by (auto simp: shouldSendAlert_def split: option.splits AttributeValue.splits)

text \<open>A record whose \<open>lastAlertSent\<close> is a string attribute, and one without it.\<close>
theorem shouldSendAlert_fails_open_witness:
  "shouldSendAlert (cycleAt 1700000000000000000)
      [''rule-0'' \<mapsto> [''ruleID'' \<mapsto> S ''rule-0'', ''lastAlertSent'' \<mapsto> S ''1699999999'']]
      ''rule-0'' (600 * Second) = Inr True
   \<and> shouldSendAlert (cycleAt 1700000000000000000)
      [''rule-0'' \<mapsto> [''ruleID'' \<mapsto> S ''rule-0'']] ''rule-0'' (600 * Second) = Inr True"
  using shouldSendAlert_fails_open [of "cycleAt 1700000000000000000"
      "[''rule-0'' \<mapsto> [''ruleID'' \<mapsto> S ''rule-0'', ''lastAlertSent'' \<mapsto> S ''1699999999'']]"
      "''rule-0''" "[''ruleID'' \<mapsto> S ''rule-0'', ''lastAlertSent'' \<mapsto> S ''1699999999'']"
      "600 * Second"]
    shouldSendAlert_fails_open [of "cycleAt 1700000000000000000"
      "[''rule-0'' \<mapsto> [''ruleID'' \<mapsto> S ''rule-0'']]" "''rule-0''"
      "[''ruleID'' \<mapsto> S ''rule-0'']" "600 * Second"]
  by (simp add: cycleAt_def)

text \<open>An error of \<open>parseWindow\<close> ends the invocation before any remote call.\<close>
lemma processRule_invalid_window:
  assumes "parseWindow pd (Window rule) = Inl err"
  shows "processRule pd c tbl i rule = (Some (ErrInvalidWindow err), tbl, [])"
  using assms by (simp add: processRule_def)

text \<open>
  C8. The window \<open>xd\<close> is not a duration, but the branch for the suffix \<open>d\<close>
  drops the scanner's error and takes zero days: \<open>parseWindow\<close> returns a zero
  window without an error, and \<open>processRule\<close> goes on to read the state, search the
  logs, send the email and write the dedup record.
\<close>
theorem processRule_malformed_days_window:
  "parseWindow pd ''xd'' = Inr 0
   \<and> processRule pd (cycleAt 1700000000000000000) Map.empty 0 (exampleRule ''xd'') =
       (None,
        [''rule-0'' \<mapsto> alertItem 1700000000050000000 ''rule-0'' 1 0],
        [CallGetItem ''rule-0'',
         CallSearchLogs ''ERROR'' 1700000000000000000 1700000000000000000 200,
         CallSendEmail (exampleRule ''xd'') [exampleHit] 0 1700000000000000000 True,
         CallPutItem (alertItem 1700000000050000000 ''rule-0'' 1 0) True])"
proof -
  have pw: "parseWindow pd ''xd'' = Inr 0"
    by (simp add: parseWindow_def eval_simps wrap64_def)
  show ?thesis
    by (simp add: pw processRule_def exampleRule_def shouldSendAlert_def cycleAt_def
         sendAlertEmail_def recordAlert_def Add_def wrap64_def Millisecond_def eval_simps)
qed

subsection \<open>Chunking and reassembly\<close>

lemma length_enc32 [simp]: "length (enc32 k n) = k"
  by (induction k) auto

lemma set_enc32: "set (enc32 k n) \<subseteq> set Encoding"
proof (induction k)
  case 0
  then show ?case by simp
next
  case (Suc k)
  have "(n div 32 ^ k) mod 32 < length Encoding" by (simp add: Encoding_def)
  then have "Encoding ! ((n div 32 ^ k) mod 32) \<in> set Encoding" by (rule nth_mem)
  with Suc show ?case by simp
qed

lemma hash_notin_Encoding: "CHR ''#'' \<notin> set Encoding"
  by (simp add: Encoding_def)

lemma length_ulid_String [simp]: "length (ulid_String u) = 26"
  by (simp add: ulid_String_def)

lemma hash_notin_ulid: "CHR ''#'' \<notin> set (ulid_String u)"
  using set_enc32 hash_notin_Encoding by (auto simp: ulid_String_def)

lemma ulidPart_append: "CHR ''#'' \<notin> set u \<Longrightarrow> ulidPart (u @ CHR ''#'' # rest) = u"
  by (induction u) (auto simp: ulidPart_def)

lemma slice_eq:
  "take ((if start + M > length bs then length bs else start + M) - start) (drop start bs)
     = take M (drop start bs)"
  by (cases "start + M > length bs") auto



lemma numParts_ge2:
  assumes "M < n" "0 < (M::nat)"
  shows "2 \<le> (n + M - 1) div M"
proof -
  have "2 * M \<le> n + M - 1" using assms by linarith
  then have "(2 * M) div M \<le> (n + M - 1) div M" by (rule div_le_mono)
  then show ?thesis using assms by simp
qed

lemma storeChunks_ok:
  assumes "\<forall>k. \<not> putFails w k"
  shows "storeChunks w entry u bs n ex rq i = (None, map (chunkItem w entry u bs n ex rq) [i..<n])"
proof (induction "n - i" arbitrary: i)
  case 0
  then show ?case by (subst storeChunks.simps) simp
next
  case (Suc d)
  then have lt: "i < n" and d: "d = n - Suc i" by linarith+
  from Suc(1)[OF d] lt assms show ?case
    by (subst storeChunks.simps) (simp add: upt_conv_Cons)
qed

lemma storeParts_ok:
  assumes "\<forall>k. \<not> putFails w k"
    and "\<forall>j<n. ulid_Timestamp (Add (Timestamp entry) (int j * Millisecond)) \<le> maxTime"
  shows "storeParts w entry n i =
     (None, map (\<lambda>j. singleItem w j (partEntry entry n j)
                      (ulid_String \<lparr>ms = ulid_Timestamp (Add (Timestamp entry) (int j * Millisecond)),
                                    entropy = rand w j mod 2 ^ 80\<rparr>)) [i..<n])"
proof (induction "n - i" arbitrary: i)
  case 0
  then show ?case by (subst storeParts.simps) simp
next
  case (Suc d)
  then have lt: "i < n" and d: "d = n - Suc i" by linarith+
  from assms(2) lt have "ulid_Timestamp (Add (Timestamp entry) (int i * Millisecond)) \<le> maxTime"
    by blast
  then have mn: "MustNew (ulid_Timestamp (Timestamp (partEntry entry n i))) (Some (rand w i))
      = Inr \<lparr>ms = ulid_Timestamp (Add (Timestamp entry) (int i * Millisecond)),
             entropy = rand w i mod 2 ^ 80\<rparr>"
    by (simp add: MustNew_def partEntry_def)
  from Suc(1)[OF d] lt assms(1) show ?case
    by (subst storeParts.simps) (simp add: upt_conv_Cons mn storeSingleItem_def)
qed

lemma unmarshalItems_Stored:
  "unmarshalItems r (map Stored items) acc
     = Inr (acc @ map (\<lambda>dbItem. toLogEntry r dbItem (message dbItem)) items)"
  by (induction items arbitrary: acc) auto

lemma unmarshalAndReassemble_Stored:
  "unmarshalAndReassemble r (map Stored items)
     = Inr (map (\<lambda>dbItem. toLogEntry r dbItem (message dbItem)) items)"
  by (simp add: unmarshalAndReassemble_def unmarshalItems_Stored)




lemma rangeOrder_empty:
  assumes "\<forall>m. mset (rangeOrder r m) = mset m"
  shows "rangeOrder r [] = []"
  using assms by (metis mset_zero_iff)


lemma chunkItem_fields:
  "total_chunks (chunkItem w entry u bs n ex rq i) = int n"
  "message (chunkItem w entry u bs n ex rq i) = take MaxMessageSize (drop (i * MaxMessageSize) bs)"
  "timestamp_seq (chunkItem w entry u bs n ex rq i) = u @ ''#'' @ Sprintf_d (int i)"
  "level (chunkItem w entry u bs n ex rq i) = Level entry"
  "source (chunkItem w entry u bs n ex rq i) = Source entry"
  "logger (chunkItem w entry u bs n ex rq i) = Logger entry"
  "request_id (chunkItem w entry u bs n ex rq i) = rq"
  "timestamp (chunkItem w entry u bs n ex rq i) = formatTime w (Timestamp entry)"
  by (simp_all add: chunkItem_def Let_def slice_eq)

lemma MaxMessageSize_pos: "0 < MaxMessageSize"
  by (simp add: MaxMessageSize_def)


lemma ulid_Timestamp_millis:
  assumes "0 \<le> t" "t div Millisecond < 2 ^ 64"
  shows "ulid_Timestamp t = nat (t div Millisecond)"
proof -
  let ?q = "t div 1000000"
  have a: "t div 1000000000 = ?q div 1000"
    using zdiv_zmult2_eq[of 1000 t 1000000] by simp
  have b: "t mod 1000000000 = 1000000 * (?q mod 1000) + t mod 1000000"
    using zmod_zmult2_eq[of 1000 t 1000000] by simp
  have c: "(t mod 1000000000) div 1000000 = ?q mod 1000"
    unfolding b by simp
  have "t div 1000000000 * 1000 + (t mod 1000000000) div 1000000 = ?q"
    unfolding a c by simp
  moreover have "0 \<le> ?q" using assms(1) by simp
  ultimately show ?thesis using assms(2)
    by (simp add: ulid_Timestamp_def Unix_def Nanosecond_def Second_def Millisecond_def)
qed

lemma StoreLogEntry_parts:
  assumes big: "MaxMessageSize < length (Message entry)"
    and puts: "\<forall>k. \<not> putFails w k"
    and n: "n = (length (Message entry) + MaxMessageSize - 1) div MaxMessageSize"
    and times: "\<forall>j<n. ulid_Timestamp (Add (Timestamp entry) (int j * Millisecond)) \<le> maxTime"
  shows "StoreLogEntry w entry =
     (None, map (\<lambda>j. singleItem w j (partEntry entry n j)
                      (ulid_String \<lparr>ms = ulid_Timestamp (Add (Timestamp entry) (int j * Millisecond)),
                                    entropy = rand w j mod 2 ^ 80\<rparr>)) [0..<n])"
proof -
  have "storeParts w entry n 0 =
     (None, map (\<lambda>j. singleItem w j (partEntry entry n j)
                      (ulid_String \<lparr>ms = ulid_Timestamp (Add (Timestamp entry) (int j * Millisecond)),
                                    entropy = rand w j mod 2 ^ 80\<rparr>)) [0..<n])"
    by (rule storeParts_ok[OF puts times])
  then show ?thesis using big unfolding StoreLogEntry_def Let_def n by simp
qed

lemma StoreLogEntry_chunked_chunks:
  assumes big: "MaxMessageSize < length (Message entry)"
    and puts: "\<forall>k. \<not> putFails w k"
    and n: "n = (length (Message entry) + MaxMessageSize - 1) div MaxMessageSize"
    and time: "ulid_Timestamp (Timestamp entry) \<le> maxTime"
  shows "StoreLogEntry_chunked w entry =
     (None, map (chunkItem w entry
                   (ulid_String \<lparr>ms = ulid_Timestamp (Timestamp entry), entropy = rand w 0 mod 2 ^ 80\<rparr>)
                   (Message entry) n (Unix (Add (clock w 0) (TTLDays * 24 * Hour)))
                   (if RequestID entry = [] then ''none'' else RequestID entry)) [0..<n])"
proof -
  have "storeChunks w entry
          (ulid_String \<lparr>ms = ulid_Timestamp (Timestamp entry), entropy = rand w 0 mod 2 ^ 80\<rparr>)
          (Message entry) n (Unix (Add (clock w 0) (TTLDays * 24 * Hour)))
          (if RequestID entry = [] then ''none'' else RequestID entry) 0
      = (None, map (chunkItem w entry
                   (ulid_String \<lparr>ms = ulid_Timestamp (Timestamp entry), entropy = rand w 0 mod 2 ^ 80\<rparr>)
                   (Message entry) n (Unix (Add (clock w 0) (TTLDays * 24 * Hour)))
                   (if RequestID entry = [] then ''none'' else RequestID entry)) [0..<n])"
    by (rule storeChunks_ok[OF puts])
  then show ?thesis using big time
    unfolding StoreLogEntry_chunked_def MustNew_def storeChunkedItems_def Let_def n by simp
qed








subsection \<open>Decoding and unparseable timestamps\<close>


lemma splitItems_singles:
  assumes "\<forall>x \<in> set items. \<not> 1 < total_chunks x"
  shows "splitItems (map Stored items) cm sm = Inr (cm, sm @ items)"
  using assms by (induction items arbitrary: sm) auto




subsection \<open>Order of the identifiers\<close>

lemma Encoding_sorted: "sorted_wrt (<) Encoding"
  by (simp add: Encoding_def less_char_def)

lemma Encoding_mono: "i < j \<Longrightarrow> j < 32 \<Longrightarrow> Encoding ! i < Encoding ! j"
  using sorted_wrt_nth_less[OF Encoding_sorted, of i j] by (simp add: Encoding_def)

lemma mod_Suc_power:
  "(a::nat) mod 32 ^ Suc k = 32 ^ k * (a div 32 ^ k mod 32) + a mod 32 ^ k"
  using mod_mult2_eq[of a "32 ^ k" 32] by (simp add: mult.commute)

lemma enc32_less:
  "a mod 32 ^ k < b mod 32 ^ k \<Longrightarrow> enc32 k a < enc32 k b"
proof (induction k)
  case 0
  then show ?case by simp
next
  case (Suc k)
  let ?da = "a div 32 ^ k mod 32" and ?db = "b div 32 ^ k mod 32"
  let ?ra = "a mod 32 ^ k" and ?rb = "b mod 32 ^ k"
  have ra: "?ra < 32 ^ k" and rb: "?rb < 32 ^ k" by simp_all
  from Suc.prems have lt: "32 ^ k * ?da + ?ra < 32 ^ k * ?db + ?rb"
    by (simp only: mod_Suc_power)
  have "?da < ?db \<or> (?da = ?db \<and> ?ra < ?rb)"
  proof (rule ccontr)
    assume "\<not> (?da < ?db \<or> (?da = ?db \<and> ?ra < ?rb))"
    then consider "?db < ?da" | "?da = ?db" "?rb \<le> ?ra" by linarith
    then show False
    proof cases
      case 1
      then have "?db + 1 \<le> ?da" by simp
      then have "32 ^ k * (?db + 1) \<le> 32 ^ k * ?da" by (rule mult_le_mono2)
      then have "32 ^ k * ?db + 32 ^ k \<le> 32 ^ k * ?da" by (simp only: distrib_left mult_1_right)
      with lt rb show False by linarith
    next
      case 2
      with lt show False by simp
    qed
  qed
  then show ?case
  proof
    assume "?da < ?db"
    moreover have "?db < 32" by simp
    ultimately have "Encoding ! ?da < Encoding ! ?db" by (rule Encoding_mono)
    then show ?thesis by simp
  next
    assume "?da = ?db \<and> ?ra < ?rb"
    with Suc.IH show ?thesis by simp
  qed
qed

lemma enc32_mod: "enc32 k (a mod 32 ^ k) = enc32 k a"
proof -
  have "enc32 j (a mod 32 ^ k) = enc32 j a" if "j \<le> k" for j
    using that
  proof (induction j)
    case 0
    then show ?case by simp
  next
    case (Suc j)
    then obtain d where k: "k = Suc j + d" by (metis le_iff_add)
    have "a mod 32 ^ k div 32 ^ j mod 32 = a div 32 ^ j mod 32"
    proof -
      have "a mod 32 ^ k = a mod (32 ^ j * 32 ^ (Suc d))"
        by (simp add: k power_add mult_ac)
      also have "\<dots> div 32 ^ j = a div 32 ^ j mod 32 ^ Suc d"
        by (simp add: mod_mult2_eq)
      finally have "a mod 32 ^ k div 32 ^ j mod 32 = a div 32 ^ j mod 32 ^ Suc d mod 32"
        by simp
      also have "\<dots> = a div 32 ^ j mod 32"
        by (simp add: mod_mod_cancel)
      finally show ?thesis .
    qed
    with Suc show ?case by simp
  qed
  then show ?thesis by simp
qed

lemma enc32_le: "a mod 32 ^ k \<le> b mod 32 ^ k \<Longrightarrow> enc32 k a \<le> enc32 k b"
proof -
  assume "a mod 32 ^ k \<le> b mod 32 ^ k"
  then consider "a mod 32 ^ k < b mod 32 ^ k" | "a mod 32 ^ k = b mod 32 ^ k" by linarith
  then show ?thesis
  proof cases
    case 1
    then show ?thesis using enc32_less by (simp add: less_imp_le)
  next
    case 2
    then have "enc32 k a = enc32 k b" using enc32_mod[of k a] enc32_mod[of k b] by simp
    then show ?thesis by simp
  qed
qed

lemma less_append_same_length:
  "xs < ys \<Longrightarrow> length xs = length ys \<Longrightarrow> xs @ a < ys @ (b :: 'a :: linorder list)"
proof (induction xs arbitrary: ys)
  case Nil
  then show ?case by simp
next
  case (Cons x xs)
  then obtain y ys' where ys: "ys = y # ys'" by (cases ys) auto
  with Cons show ?case by auto
qed

lemma ulid_String_less_time:
  assumes "ms u1 < ms u2" "ms u2 \<le> maxTime"
  shows "ulid_String u1 < ulid_String u2"
proof -
  have "ms u2 < 32 ^ 10" using assms(2) by (simp add: maxTime_def)
  with assms(1) have "ms u1 mod 32 ^ 10 < ms u2 mod 32 ^ 10" by simp
  then have "enc32 10 (ms u1) < enc32 10 (ms u2)" by (rule enc32_less)
  then show ?thesis unfolding ulid_String_def by (rule less_append_same_length) simp
qed

lemma ulid_String_less_entropy:
  assumes "ms u1 = ms u2" "entropy u1 < entropy u2" "entropy u2 < 2 ^ 80"
  shows "ulid_String u1 < ulid_String u2"
proof -
  have "(2::nat) ^ 80 = 32 ^ 16" by simp
  with assms have "entropy u1 mod 32 ^ 16 < entropy u2 mod 32 ^ 16" by simp
  then have "enc32 16 (entropy u1) < enc32 16 (entropy u2)" by (rule enc32_less)
  then show ?thesis unfolding ulid_String_def using assms(1) by (simp add: list_less_def lexord_append_leftI)
qed

lemma chunked_items_cursor:
  assumes puts: "\<forall>k. \<not> putFails w k"
    and time: "ulid_Timestamp (Timestamp entry) \<le> maxTime"
  shows "snd (StoreLogEntry_chunked w entry) \<noteq> []
       \<and> (\<forall>i \<in> set (snd (StoreLogEntry_chunked w entry)).
             ulidPart (timestamp_seq i)
               = ulid_String \<lparr>ms = ulid_Timestamp (Timestamp entry), entropy = rand w 0 mod 2 ^ 80\<rparr>)"
proof (cases "MaxMessageSize < length (Message entry)")
  case True
  let ?n = "(length (Message entry) + MaxMessageSize - 1) div MaxMessageSize"
  have "2 \<le> ?n" using True MaxMessageSize_pos by (rule numParts_ge2)
  then show ?thesis
    unfolding StoreLogEntry_chunked_chunks[OF True puts refl time]
    by (auto simp: chunkItem_fields ulidPart_append hash_notin_ulid)
next
  case False
  then show ?thesis using puts time
    by (simp add: StoreLogEntry_chunked_def MustNew_def storeSingleItem_chunked_def Let_def
          ulidPart_append hash_notin_ulid)
qed

lemma single_item_cursor:
  assumes puts: "\<forall>k. \<not> putFails w k"
    and time: "ulid_Timestamp (Timestamp entry) \<le> maxTime"
    and small: "length (Message entry) \<le> MaxMessageSize"
  shows "snd (StoreLogEntry w entry) \<noteq> []
       \<and> (\<forall>i \<in> set (snd (StoreLogEntry w entry)).
             ulidPart (timestamp_seq i)
               = ulid_String \<lparr>ms = ulid_Timestamp (Timestamp entry), entropy = rand w 0 mod 2 ^ 80\<rparr>)"
  using assms
  by (simp add: StoreLogEntry_def MustNew_def storeSingleItem_def singleItem_def Let_def
        ulidPart_append hash_notin_ulid)

lemma TimeToCursor_ok:
  assumes "ulid_Timestamp t \<le> maxTime"
  shows "TimeToCursor t = Inr (ulid_String \<lparr>ms = ulid_Timestamp t, entropy = 0\<rparr>)"
  using assms by (simp add: TimeToCursor_def MustNew_def)

lemma millis_in_range:
  assumes "0 \<le> t" "t div Millisecond \<le> int maxTime"
  shows "ulid_Timestamp t = nat (t div Millisecond)" "ulid_Timestamp t \<le> maxTime"
proof -
  have "t div Millisecond < 2 ^ 64" using assms(2) by (simp add: maxTime_def)
  with assms(1) show a: "ulid_Timestamp t = nat (t div Millisecond)" by (rule ulid_Timestamp_millis)
  show "ulid_Timestamp t \<le> maxTime" unfolding a using assms(2) by linarith
qed

lemma TimeToCursor_mono:
  assumes "0 \<le> ta" "ta \<le> tb" "tb div Millisecond \<le> int maxTime"
  shows "\<exists>c1 c2. TimeToCursor ta = Inr c1 \<and> TimeToCursor tb = Inr c2 \<and> c1 \<le> c2"
proof -
  have le: "ta div Millisecond \<le> tb div Millisecond"
    using assms(2) by (simp add: Millisecond_def zdiv_mono1)
  have b: "ulid_Timestamp tb = nat (tb div Millisecond)" "ulid_Timestamp tb \<le> maxTime"
    using assms by (auto intro: millis_in_range)
  have a: "ulid_Timestamp ta = nat (ta div Millisecond)" "ulid_Timestamp ta \<le> maxTime"
    using assms le by (auto intro: millis_in_range)
  have "ulid_Timestamp ta \<le> ulid_Timestamp tb" unfolding a b using le by simp
  then have "enc32 10 (ulid_Timestamp ta) \<le> enc32 10 (ulid_Timestamp tb)"
    using b(2) a(2) by (intro enc32_le) (simp add: maxTime_def)
  then have "ulid_String \<lparr>ms = ulid_Timestamp ta, entropy = 0\<rparr>
           \<le> ulid_String \<lparr>ms = ulid_Timestamp tb, entropy = 0\<rparr>"
    unfolding ulid_String_def list_le_def
    by (auto intro: less_append_same_length)
  then show ?thesis using TimeToCursor_ok[OF a(2)] TimeToCursor_ok[OF b(2)] by simp
qed

text \<open>
  C5, as amended. An identifier carries the instant in whole milliseconds, followed by
  the entropy. For two entries whose instants lie in different milliseconds (from 1970 on,
  inside the 48-bit range), every item written for the earlier one has a cursor strictly
  below every item of the later one, whatever the entropy; this holds for the chunk-group
  store and, for messages that fit one item, for the store of \<open>logs.go\<close>.
  \<open>TimeToCursor\<close>, which uses no entropy, is monotone: strictly across milliseconds,
  weakly for any two instants in order.
\<close>
theorem cursor_order:
  assumes "0 \<le> Timestamp e1"
    and "Timestamp e1 div Millisecond < Timestamp e2 div Millisecond"
    and "Timestamp e2 div Millisecond \<le> int maxTime"
    and "\<forall>k. \<not> putFails w1 k" and "\<forall>k. \<not> putFails w2 k"
  shows "snd (StoreLogEntry_chunked w1 e1) \<noteq> [] \<and> snd (StoreLogEntry_chunked w2 e2) \<noteq> []
       \<and> (\<forall>i1 \<in> set (snd (StoreLogEntry_chunked w1 e1)).
            \<forall>i2 \<in> set (snd (StoreLogEntry_chunked w2 e2)).
              ulidPart (timestamp_seq i1) < ulidPart (timestamp_seq i2))
       \<and> (length (Message e1) \<le> MaxMessageSize \<and> length (Message e2) \<le> MaxMessageSize \<longrightarrow>
            snd (StoreLogEntry w1 e1) \<noteq> [] \<and> snd (StoreLogEntry w2 e2) \<noteq> []
            \<and> (\<forall>i1 \<in> set (snd (StoreLogEntry w1 e1)). \<forall>i2 \<in> set (snd (StoreLogEntry w2 e2)).
                  ulidPart (timestamp_seq i1) < ulidPart (timestamp_seq i2)))
       \<and> (\<exists>c1 c2. TimeToCursor (Timestamp e1) = Inr c1 \<and> TimeToCursor (Timestamp e2) = Inr c2
             \<and> c1 < c2)
       \<and> (0 \<le> ta \<and> ta \<le> tb \<and> tb div Millisecond \<le> int maxTime \<longrightarrow>
            (\<exists>c1 c2. TimeToCursor ta = Inr c1 \<and> TimeToCursor tb = Inr c2 \<and> c1 \<le> c2))"
proof -
  have nonneg2: "0 \<le> Timestamp e2"
  proof (rule ccontr)
    assume "\<not> 0 \<le> Timestamp e2"
    then have "Timestamp e2 div Millisecond < 0" by (simp add: Millisecond_def)
    moreover have "0 \<le> Timestamp e1 div Millisecond" using assms(1) by (simp add: Millisecond_def)
    ultimately show False using assms(2) by linarith
  qed
  have le1: "Timestamp e1 div Millisecond \<le> int maxTime" using assms(2,3) by linarith
  note m1 = millis_in_range[OF assms(1) le1] and m2 = millis_in_range[OF nonneg2 assms(3)]
  have lt: "ulid_Timestamp (Timestamp e1) < ulid_Timestamp (Timestamp e2)"
    unfolding m1(1) m2(1) using assms(1,2) by (simp add: Millisecond_def)
  have ord: "ulid_String \<lparr>ms = ulid_Timestamp (Timestamp e1), entropy = x\<rparr>
           < ulid_String \<lparr>ms = ulid_Timestamp (Timestamp e2), entropy = y\<rparr>" for x y
    using lt m2(2) by (intro ulid_String_less_time) simp_all
  note c1 = chunked_items_cursor[OF assms(4) m1(2)] and c2 = chunked_items_cursor[OF assms(5) m2(2)]
  have A: "snd (StoreLogEntry_chunked w1 e1) \<noteq> [] \<and> snd (StoreLogEntry_chunked w2 e2) \<noteq> []
       \<and> (\<forall>i1 \<in> set (snd (StoreLogEntry_chunked w1 e1)).
            \<forall>i2 \<in> set (snd (StoreLogEntry_chunked w2 e2)).
              ulidPart (timestamp_seq i1) < ulidPart (timestamp_seq i2))"
    using c1 c2 ord by simp
  have B: "snd (StoreLogEntry w1 e1) \<noteq> [] \<and> snd (StoreLogEntry w2 e2) \<noteq> []
            \<and> (\<forall>i1 \<in> set (snd (StoreLogEntry w1 e1)). \<forall>i2 \<in> set (snd (StoreLogEntry w2 e2)).
                  ulidPart (timestamp_seq i1) < ulidPart (timestamp_seq i2))"
    if "length (Message e1) \<le> MaxMessageSize" "length (Message e2) \<le> MaxMessageSize"
    using single_item_cursor[OF assms(4) m1(2) that(1)] single_item_cursor[OF assms(5) m2(2) that(2)] ord
    by simp
  have C: "\<exists>c1 c2. TimeToCursor (Timestamp e1) = Inr c1 \<and> TimeToCursor (Timestamp e2) = Inr c2
             \<and> c1 < c2"
    using TimeToCursor_ok[OF m1(2)] TimeToCursor_ok[OF m2(2)] ord by simp
  have D: "\<exists>c1 c2. TimeToCursor ta = Inr c1 \<and> TimeToCursor tb = Inr c2 \<and> c1 \<le> c2"
    if "0 \<le> ta" "ta \<le> tb" "tb div Millisecond \<le> int maxTime"
    using that by (rule TimeToCursor_mono)
  from A B C D show ?thesis by blast
qed

text \<open>
  Two entries one millisecond apart, the later one written with the smaller entropy.
\<close>
theorem cursor_order_witness:
  "ulidPart (timestamp_seq (hd (snd (StoreLogEntry exampleEnv
       (entryAt 1700000000000000000 ''first'')))))
     < ulidPart (timestamp_seq (hd (snd (StoreLogEntry lowEntropyEnv
       (entryAt 1700000000001000000 ''second'')))))
   \<and> snd (StoreLogEntry exampleEnv (entryAt 1700000000000000000 ''first'')) \<noteq> []
   \<and> snd (StoreLogEntry lowEntropyEnv (entryAt 1700000000001000000 ''second'')) \<noteq> []
   \<and> (\<exists>c1 c2. TimeToCursor 1700000000000000000 = Inr c1
          \<and> TimeToCursor 1700000000001000000 = Inr c2 \<and> c1 \<le> c2)"
proof -
  let ?xs = "snd (StoreLogEntry exampleEnv (entryAt 1700000000000000000 ''first''))"
  let ?ys = "snd (StoreLogEntry lowEntropyEnv (entryAt 1700000000001000000 ''second''))"
  have c: "?xs \<noteq> [] \<and> ?ys \<noteq> []
      \<and> (\<forall>i1 \<in> set ?xs. \<forall>i2 \<in> set ?ys. ulidPart (timestamp_seq i1) < ulidPart (timestamp_seq i2))
      \<and> (\<exists>c1 c2. TimeToCursor 1700000000000000000 = Inr c1
          \<and> TimeToCursor 1700000000001000000 = Inr c2 \<and> c1 \<le> c2)"
    using cursor_order[of "entryAt 1700000000000000000 ''first''"
      "entryAt 1700000000001000000 ''second''" exampleEnv lowEntropyEnv
      1700000000000000000 1700000000001000000]
    by (simp add: entryAt_def exampleEnv_def lowEntropyEnv_def Millisecond_def maxTime_def
        MaxMessageSize_def)
  then have "hd ?xs \<in> set ?xs" "hd ?ys \<in> set ?ys" by simp_all
  with c show ?thesis by blast
qed

text \<open>
  C5, as stated, fails: of two entries one nanosecond apart, hence in the same
  millisecond, the later one gets the smaller cursor when its entropy is smaller.
\<close>
theorem cursor_order_counterexample:
  "ulidPart (timestamp_seq (hd (snd (StoreLogEntry lowEntropyEnv
       (entryAt 1700000000000000001 ''second'')))))
   < ulidPart (timestamp_seq (hd (snd (StoreLogEntry exampleEnv
       (entryAt 1700000000000000000 ''first'')))))"
proof -
  have t1: "ulid_Timestamp 1700000000000000000 = 1700000000000"
    by (subst ulid_Timestamp_millis) (simp_all add: Millisecond_def)
  have t2: "ulid_Timestamp 1700000000000000001 = 1700000000000"
    by (subst ulid_Timestamp_millis) (simp_all add: Millisecond_def)
  have a: "snd (StoreLogEntry exampleEnv (entryAt 1700000000000000000 ''first''))
      = [singleItem exampleEnv 0 (entryAt 1700000000000000000 ''first'')
           (ulid_String \<lparr>ms = 1700000000000, entropy = 7\<rparr>)]"
    by (simp add: StoreLogEntry_def entryAt_def MaxMessageSize_def t1 MustNew_def maxTime_def
          storeSingleItem_def exampleEnv_def)
  have b: "snd (StoreLogEntry lowEntropyEnv (entryAt 1700000000000000001 ''second''))
      = [singleItem lowEntropyEnv 0 (entryAt 1700000000000000001 ''second'')
           (ulid_String \<lparr>ms = 1700000000000, entropy = 3\<rparr>)]"
    by (simp add: StoreLogEntry_def entryAt_def MaxMessageSize_def t2 MustNew_def maxTime_def
          storeSingleItem_def exampleEnv_def lowEntropyEnv_def)
  have "ulid_String \<lparr>ms = 1700000000000, entropy = 3\<rparr>
      < ulid_String \<lparr>ms = 1700000000000, entropy = 7\<rparr>"
    by (rule ulid_String_less_entropy) simp_all
  then show ?thesis
    unfolding a b by (simp add: singleItem_def Let_def ulidPart_append hash_notin_ulid)
qed

subsection \<open>The example tables\<close>

lemma enc32_numeral:
  "enc32 (numeral k) n = Encoding ! ((n div 32 ^ pred_numeral k) mod 32) # enc32 (pred_numeral k) n"
  by (metis enc32.simps(2) numeral_eq_Suc)

lemma enc32_one: "enc32 1 n = [Encoding ! (n mod 32)]"
  using enc32.simps(2)[of 0 n] by simp

lemmas ulid_eval = ulid_String_def enc32_numeral enc32_one Encoding_def

lemma ulid_ex1: "ulid_String \<lparr>ms = 1700000000001, entropy = 7\<rparr> = ''01HF7YAT010000000000000007''"
  by (simp add: ulid_eval)

lemma ulid_exX: "cursorX = ''01HF7YAT060000000000000000''"
  by (simp add: cursorX_def ulid_eval)

lemma ulid_Timestamp_eval:
  "ulid_Timestamp (numeral k) = nat ((numeral k div 1000000000 * 1000 + numeral k mod 1000000000 div 1000000) mod 2 ^ 64)"
  by (simp add: ulid_Timestamp_def Unix_def Nanosecond_def Second_def Millisecond_def)

lemma store_short_chunked:
  "StoreLogEntry_chunked exampleEnv (entryAt 1700000000001000000 ''e1'')
     = (None, [shortItem 0 ''01HF7YAT010000000000000007#0'' ''e1'' 1700000000001000000 1])"
  by (simp add: StoreLogEntry_chunked_def entryAt_def exampleEnv_def ulid_Timestamp_eval MustNew_def
        maxTime_def MaxMessageSize_def storeSingleItem_chunked_def shortItem_def PartitionKey_def
        ulid_eval Sprintf_d_def[of 0] nat_digits.simps[of 0] digit_char_def decimalDigits_def)

lemmas store_eval = entryAt_def exampleEnv_def ulid_Timestamp_eval MustNew_def
        maxTime_def MaxMessageSize_def PartitionKey_def
        ulid_eval Sprintf_d_def[of 0] nat_digits.simps[of 0] digit_char_def decimalDigits_def

lemma five_stored_chunked:
  "snd (StoreLogEntry_chunked exampleEnv (entryAt 1700000000001000000 ''e1''))
     = [shortItem 0 ''01HF7YAT010000000000000007#0'' ''e1'' 1700000000001000000 1]"
  "snd (StoreLogEntry_chunked exampleEnv (entryAt 1700000000002000000 ''e2''))
     = [shortItem 0 ''01HF7YAT020000000000000007#0'' ''e2'' 1700000000002000000 1]"
  "snd (StoreLogEntry_chunked exampleEnv (entryAt 1700000000003000000 ''e3''))
     = [shortItem 0 ''01HF7YAT030000000000000007#0'' ''e3'' 1700000000003000000 1]"
  "snd (StoreLogEntry_chunked exampleEnv (entryAt 1700000000004000000 ''e4''))
     = [shortItem 0 ''01HF7YAT040000000000000007#0'' ''e4'' 1700000000004000000 1]"
  "snd (StoreLogEntry_chunked exampleEnv (entryAt 1700000000005000000 ''e5''))
     = [shortItem 0 ''01HF7YAT050000000000000007#0'' ''e5'' 1700000000005000000 1]"
  by (simp_all add: StoreLogEntry_chunked_def storeSingleItem_chunked_def shortItem_def store_eval)

lemma five_stored:
  "snd (StoreLogEntry exampleEnv (entryAt 1700000000001000000 ''e1''))
     = [shortItem 0 ''01HF7YAT010000000000000007#0'' ''e1'' 1700000000001000000 0]"
  "snd (StoreLogEntry exampleEnv (entryAt 1700000000002000000 ''e2''))
     = [shortItem 0 ''01HF7YAT020000000000000007#0'' ''e2'' 1700000000002000000 0]"
  "snd (StoreLogEntry exampleEnv (entryAt 1700000000003000000 ''e3''))
     = [shortItem 0 ''01HF7YAT030000000000000007#0'' ''e3'' 1700000000003000000 0]"
  "snd (StoreLogEntry exampleEnv (entryAt 1700000000004000000 ''e4''))
     = [shortItem 0 ''01HF7YAT040000000000000007#0'' ''e4'' 1700000000004000000 0]"
  "snd (StoreLogEntry exampleEnv (entryAt 1700000000005000000 ''e5''))
     = [shortItem 0 ''01HF7YAT050000000000000007#0'' ''e5'' 1700000000005000000 0]"
  by (simp_all add: StoreLogEntry_def storeSingleItem_def singleItem_def shortItem_def store_eval)

lemma shortItem_sel [simp]:
  "pk (shortItem k key msg t tc) = ''LOGS''" "timestamp_seq (shortItem k key msg t tc) = key"
  "message (shortItem k key msg t tc) = msg" "total_chunks (shortItem k key msg t tc) = tc"
  "timestamp (shortItem k key msg t tc) = Sprintf_d t"
  by (simp_all add: shortItem_def)

lemma fiveTable_chunked_eq:
  "fiveTable_chunked =
     [Stored (shortItem 0 ''01HF7YAT050000000000000007#0'' ''e5'' 1700000000005000000 1),
      Stored (shortItem 0 ''01HF7YAT040000000000000007#0'' ''e4'' 1700000000004000000 1),
      Stored (shortItem 0 ''01HF7YAT030000000000000007#0'' ''e3'' 1700000000003000000 1),
      Stored (shortItem 0 ''01HF7YAT020000000000000007#0'' ''e2'' 1700000000002000000 1),
      Stored (shortItem 0 ''01HF7YAT010000000000000007#0'' ''e1'' 1700000000001000000 1)]"
  by (simp add: fiveTable_chunked_def fiveEntries_def five_stored_chunked putAll_def PutItem_def)

lemma fiveTable_eq:
  "fiveTable =
     [Stored (shortItem 0 ''01HF7YAT050000000000000007#0'' ''e5'' 1700000000005000000 0),
      Stored (shortItem 0 ''01HF7YAT040000000000000007#0'' ''e4'' 1700000000004000000 0),
      Stored (shortItem 0 ''01HF7YAT030000000000000007#0'' ''e3'' 1700000000003000000 0),
      Stored (shortItem 0 ''01HF7YAT020000000000000007#0'' ''e2'' 1700000000002000000 0),
      Stored (shortItem 0 ''01HF7YAT010000000000000007#0'' ''e1'' 1700000000001000000 0)]"
  by (simp add: fiveTable_def fiveEntries_def five_stored putAll_def PutItem_def)

lemma query_before_X:
  "Query [Stored (shortItem 0 ''01HF7YAT050000000000000007#0'' ''e5'' t5 tc),
      Stored (shortItem 0 ''01HF7YAT040000000000000007#0'' ''e4'' t4 tc),
      Stored (shortItem 0 ''01HF7YAT030000000000000007#0'' ''e3'' t3 tc),
      Stored (shortItem 0 ''01HF7YAT020000000000000007#0'' ''e2'' t2 tc),
      Stored (shortItem 0 ''01HF7YAT010000000000000007#0'' ''e1'' t1 tc)]
     (\<lambda>k. k < ''01HF7YAT060000000000000000#0'') False None
   = [Stored (shortItem 0 ''01HF7YAT050000000000000007#0'' ''e5'' t5 tc),
      Stored (shortItem 0 ''01HF7YAT040000000000000007#0'' ''e4'' t4 tc),
      Stored (shortItem 0 ''01HF7YAT030000000000000007#0'' ''e3'' t3 tc),
      Stored (shortItem 0 ''01HF7YAT020000000000000007#0'' ''e2'' t2 tc),
      Stored (shortItem 0 ''01HF7YAT010000000000000007#0'' ''e1'' t1 tc)]"
  by (simp add: Query_def PartitionKey_def less_char_def list_le_def)

lemmas read_eval = exampleReadEnv_def clampLimit_def Query_def PartitionKey_def less_char_def
  list_le_def toLogEntry_def

text \<open>
  C6. Five entries lie before the cursor and two are asked for. The chunk-group
  \<open>GetLogs\<close> fetches \<open>limit * 2\<close> items backwards, reverses them and keeps the first
  \<open>limit\<close>: it returns the second and third entry, not the two next to the cursor. The
  \<open>GetLogs\<close> of \<open>logs.go\<close>, which fetches \<open>limit\<close> items, returns the fourth and
  fifth.
\<close>
theorem before_cursor_page:
  "map_sum id (map Message) (GetLogs_chunked exampleReadEnv fiveTable_chunked 2 [] cursorX)
     = Inr [''e2'', ''e3'']
   \<and> map_sum id (map Message) (GetLogs exampleReadEnv fiveTable 2 [] cursorX)
     = Inr [''e4'', ''e5'']"
proof -
  have a: "map_sum id (map Message) (GetLogs_chunked exampleReadEnv fiveTable_chunked 2 [] cursorX)
     = Inr [''e2'', ''e3'']"
    unfolding fiveTable_chunked_eq ulid_exX
    by (simp add: GetLogs_chunked_def unmarshalAndReassemble_chunked_def reassemble_def read_eval)
  have b: "map_sum id (map Message) (GetLogs exampleReadEnv fiveTable 2 [] cursorX)
     = Inr [''e4'', ''e5'']"
    unfolding fiveTable_eq ulid_exX
    by (simp add: GetLogs_def unmarshalAndReassemble_def read_eval)
  from a b show ?thesis by simp
qed

lemma upt_0_2: "[0..<2] = [0, Suc 0]"
  by (simp add: upt_rec)

lemma big_numParts: "(length (Message bigEntry) + MaxMessageSize - 1) div MaxMessageSize = 2"
  by (simp add: bigEntry_def entryAt_def MaxMessageSize_def)

lemma big_stored:
  "snd (StoreLogEntry_chunked exampleEnv bigEntry)
     = [chunkOf 0 ''01HF7YAT000000000000000007#0'' 358400,
        chunkOf 1 ''01HF7YAT000000000000000007#1'' 41600]"
proof -
  have t: "ulid_Timestamp (Timestamp bigEntry) = 1700000000000"
    by (simp add: bigEntry_def entryAt_def ulid_Timestamp_eval)
  have "StoreLogEntry_chunked exampleEnv bigEntry =
     (None, map (chunkItem exampleEnv bigEntry
                   (ulid_String \<lparr>ms = ulid_Timestamp (Timestamp bigEntry), entropy = rand exampleEnv 0 mod 2 ^ 80\<rparr>)
                   (Message bigEntry) 2 (Unix (Add (clock exampleEnv 0) (TTLDays * 24 * Hour)))
                   (if RequestID bigEntry = [] then ''none'' else RequestID bigEntry)) [0..<2])"
    by (rule StoreLogEntry_chunked_chunks)
       (simp_all add: bigEntry_def entryAt_def MaxMessageSize_def exampleEnv_def
          ulid_Timestamp_eval maxTime_def)
  then show ?thesis
    unfolding t upt_0_2
    by (simp add: chunkItem_def chunkOf_def bigEntry_def entryAt_def exampleEnv_def
          MaxMessageSize_def PartitionKey_def ulid_eval eval_simps)
qed

lemma chunkOf_sel [simp]:
  "pk (chunkOf i key len) = ''LOGS''" "timestamp_seq (chunkOf i key len) = key"
  "message (chunkOf i key len) = replicate len CHR ''a''" "total_chunks (chunkOf i key len) = 2"
  by (simp_all add: chunkOf_def)

lemma chunkedTable_eq:
  "chunkedTable = [Stored (chunkOf 1 ''01HF7YAT000000000000000007#1'' 41600),
                   Stored (chunkOf 0 ''01HF7YAT000000000000000007#0'' 358400)]"
  by (simp add: chunkedTable_def big_stored putAll_def PutItem_def)

lemma bigCursor_eq: "bigCursor = ''01HF7YAT000000000000000007''"
  by (simp add: bigCursor_def ulid_eval)

lemma laterCursor_eq: "laterCursor = ''01HF7YAT050000000000000007''"
  by (simp add: laterCursor_def ulid_eval)

lemma chunked_after_cursor:
  "map_sum id (map (\<lambda>e. (Cursor e, length (Message e))))
      (GetLogs_chunked exampleReadEnv chunkedTable 100 bigCursor [])
     = Inr [(bigCursor, 41600)]"
  unfolding chunkedTable_eq bigCursor_eq
  by (simp add: GetLogs_chunked_def unmarshalAndReassemble_chunked_def reassemble_def read_eval
        ulidPart_def)

lemma later_stored:
  "snd (StoreLogEntry_chunked exampleEnv (entryAt 1700000000005000000 ''later''))
     = [shortItem 0 ''01HF7YAT050000000000000007#0'' ''later'' 1700000000005000000 1]"
  by (simp_all add: StoreLogEntry_chunked_def storeSingleItem_chunked_def shortItem_def store_eval)

lemma mixedTable_eq:
  "mixedTable = [Stored (shortItem 0 ''01HF7YAT050000000000000007#0'' ''later'' 1700000000005000000 1),
                 Stored (chunkOf 1 ''01HF7YAT000000000000000007#1'' 41600),
                 Stored (chunkOf 0 ''01HF7YAT000000000000000007#0'' 358400)]"
  by (simp add: mixedTable_def chunkedTable_eq later_stored putAll_def PutItem_def)

lemma chunked_time_range:
  "map_sum id (map Cursor)
      (queryLogsByTimeRange_chunked exampleReadEnv mixedTable 1700000000000000000 1700000000010000000)
     = Inr [bigCursor, laterCursor]
   \<and> bigCursor < laterCursor"
  unfolding mixedTable_eq bigCursor_eq laterCursor_eq
  by (simp add: queryLogsByTimeRange_chunked_def timeRangePages_def MustNew_def maxTime_def
        ulid_Timestamp_eval ulid_eval
        unmarshalAndReassemble_chunked_def reassemble_def read_eval ulidPart_def)

lemma parts_stored:
  "snd (StoreLogEntry exampleEnv bigEntry)
     = [partOf 0 ''01HF7YAT000000000000000007#0'', partOf 1 ''01HF7YAT010000000000000007#0'']"
proof -
  have n: "2 = (length (Message bigEntry) + MaxMessageSize - 1) div MaxMessageSize"
    by (simp only: big_numParts)
  have times: "\<forall>j<2. ulid_Timestamp (Add (Timestamp bigEntry) (int j * Millisecond)) \<le> maxTime"
  proof (intro allI impI)
    fix j :: nat assume "j < 2"
    then have "j = 0 \<or> j = 1" by arith
    then show "ulid_Timestamp (Add (Timestamp bigEntry) (int j * Millisecond)) \<le> maxTime"
      by (auto simp: bigEntry_def entryAt_def Add_def Millisecond_def ulid_Timestamp_eval maxTime_def)
  qed
  have "StoreLogEntry exampleEnv bigEntry =
     (None, map (\<lambda>j. singleItem exampleEnv j (partEntry bigEntry 2 j)
                      (ulid_String \<lparr>ms = ulid_Timestamp (Add (Timestamp bigEntry) (int j * Millisecond)),
                                    entropy = rand exampleEnv j mod 2 ^ 80\<rparr>)) [0..<2])"
    by (rule StoreLogEntry_parts[OF _ _ n times])
       (simp_all add: bigEntry_def entryAt_def MaxMessageSize_def exampleEnv_def)
  then show ?thesis
    unfolding upt_0_2
    by (simp add: singleItem_def partEntry_def partOf_def bigEntry_def entryAt_def exampleEnv_def
          Add_def Millisecond_def ulid_Timestamp_eval PartitionKey_def ulid_eval)
qed

lemma partOf_sel [simp]:
  "pk (partOf i key) = ''LOGS''" "timestamp_seq (partOf i key) = key"
  "message (partOf i key) = partMessage (replicate 400000 CHR ''a'') 2 i"
  "total_chunks (partOf i key) = 0"
  by (simp_all add: partOf_def)

lemma partsTable_eq:
  "partsTable = [Stored (partOf 1 ''01HF7YAT010000000000000007#0''),
                 Stored (partOf 0 ''01HF7YAT000000000000000007#0'')]"
  by (simp add: partsTable_def parts_stored putAll_def PutItem_def)

lemma later_stored_parts:
  "snd (StoreLogEntry exampleEnv (entryAt 1700000000005000000 ''later''))
     = [shortItem 0 ''01HF7YAT050000000000000007#0'' ''later'' 1700000000005000000 0]"
  by (simp_all add: StoreLogEntry_def storeSingleItem_def singleItem_def shortItem_def store_eval)

lemma mixedPartsTable_eq:
  "mixedPartsTable = [Stored (shortItem 0 ''01HF7YAT050000000000000007#0'' ''later'' 1700000000005000000 0),
                 Stored (partOf 1 ''01HF7YAT010000000000000007#0''),
                 Stored (partOf 0 ''01HF7YAT000000000000000007#0'')]"
  by (simp add: mixedPartsTable_def partsTable_eq later_stored_parts putAll_def PutItem_def)

lemma logs_go_after_cursor:
  "map_sum id (map Cursor) (GetLogs exampleReadEnv partsTable 100 bigCursor [])
     = Inr [''01HF7YAT010000000000000007'']"
  unfolding partsTable_eq bigCursor_eq
  by (simp add: GetLogs_def unmarshalAndReassemble_def read_eval ulidPart_def)

lemma logs_go_time_range:
  "map_sum id (map Cursor)
      (queryLogsByTimeRange exampleReadEnv mixedPartsTable 1700000000000000000 1700000000010000000)
     = Inr [laterCursor, ''01HF7YAT010000000000000007'', bigCursor]"
  unfolding mixedPartsTable_eq bigCursor_eq laterCursor_eq
  by (simp add: queryLogsByTimeRange_def timeRangePages_def MustNew_def maxTime_def
        ulid_Timestamp_eval ulid_eval unmarshalAndReassemble_def read_eval ulidPart_def)


subsection \<open>The queries of \<open>logs.go\<close> in general\<close>

lemma insort_key_map:
  "insort_key f (g x) (map g ys) = map g (insort_key (\<lambda>y. f (g y)) x ys)"
  by (induction ys) auto

lemma sort_key_map:
  "sort_key f (map g xs) = map g (sort_key (\<lambda>y. f (g y)) xs)"
  by (induction xs) (auto simp: insort_key_map)

text \<open>The result of a query on a table of well-typed items, before unmarshalling.\<close>
lemma Query_Stored:
  "Query (map Stored items) cond fwd lim =
     map Stored
       (let m = sort_key timestamp_seq
                  (filter (\<lambda>i. pk i = PartitionKey \<and> cond (timestamp_seq i)) items);
            ordered = (if fwd then m else rev m)
        in case lim of None \<Rightarrow> ordered | Some n \<Rightarrow> take n ordered)"
  by (simp add: Query_def Let_def filter_map comp_def sort_key_map rev_map take_map
           split: option.splits)

lemma rev_map_take_rev: "rev (map f (take n (rev ys))) = map f (drop (length ys - n) ys)"
  by (simp add: rev_map rev_take)

lemma clampLimit_range: "1 \<le> clampLimit limit \<and> clampLimit limit \<le> 500"
  by (simp add: clampLimit_def Let_def)

text \<open>
  The \<open>GetLogs\<close> of \<open>logs.go\<close> with \<open>beforeCursor\<close>: of the items whose sort key
  lies below \<open>beforeCursor#0\<close>, the last \<open>limit\<close> ones (after clamping) in ascending
  order of the sort key, each decoded.
\<close>
lemma GetLogs_before_cursor:
  assumes "beforeCursor \<noteq> []" "\<not> queryFails r 0"
    and ys: "ys = sort_key timestamp_seq
                   (filter (\<lambda>i. pk i = PartitionKey \<and> timestamp_seq i < beforeCursor @ ''#0'') items)"
    and L: "L = nat (clampLimit limit)"
  shows "GetLogs r (map Stored items) limit [] beforeCursor
           = Inr (map (\<lambda>i. toLogEntry r i (message i)) (drop (length ys - L) ys))"
    and "L \<le> length ys \<longrightarrow> length (drop (length ys - L) ys) = L"
proof -
  have q: "Query (map Stored items) (\<lambda>k. k < beforeCursor @ ''#0'') False (Some L)
             = map Stored (take L (rev ys))"
    by (simp add: Query_Stored ys)
  have len: "int (length (take L (rev ys))) \<le> clampLimit limit"
    using clampLimit_range[of limit] unfolding L by (simp add: min_def) linarith
  show "GetLogs r (map Stored items) limit [] beforeCursor
           = Inr (map (\<lambda>i. toLogEntry r i (message i)) (drop (length ys - L) ys))"
    using assms(1,2) len
    by (simp add: GetLogs_def Let_def L[symmetric] q unmarshalAndReassemble_Stored
          rev_map_take_rev del: length_take)
  show "L \<le> length ys \<longrightarrow> length (drop (length ys - L) ys) = L" by simp
qed

lemma set_Query_Stored:
  "\<exists>zs. Query (map Stored items) cond fwd lim = map Stored zs
        \<and> set zs \<subseteq> {i \<in> set items. cond (timestamp_seq i)}"
proof -
  let ?m = "sort_key timestamp_seq (filter (\<lambda>i. pk i = PartitionKey \<and> cond (timestamp_seq i)) items)"
  let ?o = "if fwd then ?m else rev ?m"
  let ?zs = "case lim of None \<Rightarrow> ?o | Some n \<Rightarrow> take n ?o"
  have "set ?o \<subseteq> {i \<in> set items. cond (timestamp_seq i)}" by auto
  moreover have "set ?zs \<subseteq> set ?o" by (auto split: option.splits dest: in_set_takeD)
  moreover have "Query (map Stored items) cond fwd lim = map Stored ?zs"
    by (simp add: Query_Stored Let_def)
  ultimately show ?thesis by blast
qed

text \<open>
  On a table whose sort keys all have the form \<open>id#0\<close> (what \<open>logs.go\<close> writes), the
  \<open>GetLogs\<close> of \<open>logs.go\<close> never returns an entry with the cursor it was given.
\<close>
lemma GetLogs_exclusive:
  assumes wf: "\<forall>i \<in> set items. timestamp_seq i = ulidPart (timestamp_seq i) @ ''#0''"
    and c: "c \<noteq> []"
    and res: "GetLogs r (map Stored items) limit c b = Inr es
              \<or> GetLogs r (map Stored items) limit [] c = Inr es"
  shows "\<forall>e \<in> set es. Cursor e \<noteq> c"
proof -
  have key: "\<And>i. i \<in> set items \<Longrightarrow> ulidPart (timestamp_seq i) = c \<Longrightarrow> timestamp_seq i = c @ ''#0''"
    using wf by metis
  from res show ?thesis
  proof
    assume a: "GetLogs r (map Stored items) limit c b = Inr es"
    obtain zs where q: "Query (map Stored items) (\<lambda>k. k > c @ ''#0'') True
                          (Some (nat (clampLimit limit))) = map Stored zs"
        and sub: "set zs \<subseteq> {i \<in> set items. timestamp_seq i > c @ ''#0''}"
      using set_Query_Stored by blast
    from a c have "set es \<subseteq> (\<lambda>i. toLogEntry r i (message i)) ` set zs"
      by (auto simp: GetLogs_def Let_def q unmarshalAndReassemble_Stored
               split: if_splits dest: in_set_takeD)
    then show ?thesis using sub key by (fastforce simp: toLogEntry_def)
  next
    assume a: "GetLogs r (map Stored items) limit [] c = Inr es"
    obtain zs where q: "Query (map Stored items) (\<lambda>k. k < c @ ''#0'') False
                          (Some (nat (clampLimit limit))) = map Stored zs"
        and sub: "set zs \<subseteq> {i \<in> set items. timestamp_seq i < c @ ''#0''}"
      using set_Query_Stored by blast
    from a c have "set es \<subseteq> (\<lambda>i. toLogEntry r i (message i)) ` set zs"
      by (auto simp: GetLogs_def Let_def q unmarshalAndReassemble_Stored
               split: if_splits dest: in_set_takeD)
    then show ?thesis using sub key by (fastforce simp: toLogEntry_def)
  qed
qed

lemma fetchPages_Stored:
  assumes "\<forall>k. \<not> queryFails r k"
  shows "concat pages = map Stored zs \<Longrightarrow>
         fetchPages r (unmarshalAndReassemble r) pages k acc
           = Inr (acc @ map (\<lambda>i. toLogEntry r i (message i)) zs)"
proof (induction pages arbitrary: zs k acc)
  case Nil
  then show ?case by simp
next
  case (Cons p ps)
  from Cons.prems have p: "p = map Stored (take (length p) zs)"
    and ps: "concat ps = map Stored (drop (length p) zs)"
    by (simp_all add: append_eq_conv_conj take_map drop_map)
  have dec: "unmarshalAndReassemble r p
               = Inr (map (\<lambda>i. toLogEntry r i (message i)) (take (length p) zs))"
    by (subst p) (rule unmarshalAndReassemble_Stored)
  have "map (\<lambda>i. toLogEntry r i (message i)) (take (length p) zs)
          @ map (\<lambda>i. toLogEntry r i (message i)) (drop (length p) zs)
        = map (\<lambda>i. toLogEntry r i (message i)) zs"
    by (simp add: map_append[symmetric] del: map_append)
  with Cons.IH[OF ps] assms dec show ?case by simp
qed

lemma same_length_prefix_le:
  assumes "a @ s \<le> b @ s" "length a = length b"
  shows "a \<le> (b :: 'a :: linorder list)"
proof (rule ccontr)
  assume "\<not> a \<le> b"
  then have "b < a" by simp
  then have "b @ s < a @ s" using assms(2) by (intro less_append_same_length) simp_all
  with assms(1) show False by simp
qed

text \<open>
  On a table whose sort keys are a 26-character identifier followed by \<open>#0\<close>, the time
  range query of \<open>logs.go\<close> returns the entries with their cursors in descending order,
  however the paginator cuts the result.
\<close>
lemma queryLogsByTimeRange_descending:
  assumes wf: "\<forall>i \<in> set items. timestamp_seq i = ulidPart (timestamp_seq i) @ ''#0''
                                 \<and> length (ulidPart (timestamp_seq i)) = 26"
    and pg: "\<forall>xs. concat (paging r xs) = xs"
    and ok: "\<forall>k. \<not> queryFails r k"
    and res: "queryLogsByTimeRange r (map Stored items) startTime endTime = Inr es"
  shows "sorted (rev (map Cursor es))"
proof -
  from res obtain s e where s: "MustNew (ulid_Timestamp startTime) None = Inr s"
    and e: "MustNew (ulid_Timestamp endTime) None = Inr e"
    by (auto simp: queryLogsByTimeRange_def split: sum.splits)
  let ?cond = "\<lambda>k. ulid_String s @ ''#0'' \<le> k \<and> k \<le> ulid_String e @ ''#999''"
  let ?m = "sort_key timestamp_seq (filter (\<lambda>i. pk i = PartitionKey \<and> ?cond (timestamp_seq i)) items)"
  have q: "Query (map Stored items) ?cond False None = map Stored (rev ?m)"
    by (simp add: Query_Stored)
  have cc: "concat (timeRangePages r (map Stored items) s e) = map Stored (rev ?m)"
    using pg[rule_format, of "Query (map Stored items) ?cond False None"]
    by (auto simp: timeRangePages_def q split: list.splits)
  have "es = map (\<lambda>i. toLogEntry r i (message i)) (rev ?m)"
    using res fetchPages_Stored[OF ok cc, of 0 "[]"]
    by (simp add: queryLogsByTimeRange_def s e)
  then have cur: "rev (map Cursor es) = map (\<lambda>i. ulidPart (timestamp_seq i)) ?m"
    by (simp add: rev_map toLogEntry_def comp_def)
  have sk: "sorted (map timestamp_seq ?m)" by (rule sorted_sort_key)
  have sub: "set ?m \<subseteq> set items" by auto
  have mono: "ulidPart (timestamp_seq i) \<le> ulidPart (timestamp_seq j)"
    if "i \<in> set ?m" "j \<in> set ?m" "timestamp_seq i \<le> timestamp_seq j" for i j
  proof -
    from that(1,2) sub have ii: "i \<in> set items" "j \<in> set items" by blast+
    note wi = bspec[OF wf ii(1)] and wj = bspec[OF wf ii(2)]
    note ki = wi[THEN conjunct1] and li = wi[THEN conjunct2]
    note kj = wj[THEN conjunct1] and lj = wj[THEN conjunct2]
    have "ulidPart (timestamp_seq i) @ ''#0'' \<le> ulidPart (timestamp_seq j) @ ''#0''"
      unfolding ki[symmetric] kj[symmetric] by (rule that(3))
    moreover have "length (ulidPart (timestamp_seq i)) = length (ulidPart (timestamp_seq j))"
      by (simp only: li lj)
    ultimately show ?thesis by (rule same_length_prefix_le)
  qed
  have "sorted (map (\<lambda>i. ulidPart (timestamp_seq i)) ?m)"
    using sk mono unfolding sorted_map by (rule sorted_wrt_mono_rel[rotated])
  then show ?thesis by (simp only: cur)
qed

subsection \<open>The claims that fail on the chunk-group store, and the counterexample to C2\<close>

text \<open>
  C3. After an entry of two chunks is appended, the chunk-group \<open>GetLogs\<close> with that
  entry's cursor as \<open>afterCursor\<close> returns an entry with this very cursor: the key
  condition \<open>timestamp_seq > cursor#0\<close> lets the second chunk through, and it is
  reassembled alone (41600 of the 400000 bytes). The \<open>GetLogs\<close> of \<open>logs.go\<close>, whose
  store gave the second part an identifier of its own, returns that part only.
\<close>
theorem after_cursor_returns_chunk_of_cursor:
  "map_sum id (map (\<lambda>e. (Cursor e, length (Message e))))
      (GetLogs_chunked exampleReadEnv chunkedTable 100 bigCursor [])
     = Inr [(bigCursor, 41600)]
   \<and> map_sum id (map Cursor) (GetLogs exampleReadEnv partsTable 100 bigCursor [])
     = Inr [''01HF7YAT010000000000000007'']"
  using chunked_after_cursor logs_go_after_cursor by simp

text \<open>
  C4. The table holds a two-chunk entry and a short entry five milliseconds later. The
  chunk-aware reader emits the reassembled groups before the single items, so the time
  range query returns the older entry first. The reader of \<open>logs.go\<close> keeps the order
  of the query: most recent first.
\<close>
theorem time_range_puts_chunk_group_first:
  "map_sum id (map Cursor)
      (queryLogsByTimeRange_chunked exampleReadEnv mixedTable 1700000000000000000 1700000000010000000)
     = Inr [bigCursor, laterCursor]
   \<and> bigCursor < laterCursor
   \<and> map_sum id (map Cursor)
      (queryLogsByTimeRange exampleReadEnv mixedPartsTable 1700000000000000000 1700000000010000000)
     = Inr [laterCursor, ''01HF7YAT010000000000000007'', bigCursor]"
  using chunked_time_range logs_go_time_range by simp


end
